theory Spec2Isabelle
  imports Complex_Main "HOL-Library.Word"
begin

section \<open>The engine interface as seen by AppController\<close>

text \<open>
  The AR engine is a closed binary behind a C API. The controller only sees opaque
  handles and result codes, so the model takes every engine answer as an input of the
  operation that asks for it, and records every engine command and every client callback
  the controller issues, in program order, in the field \<open>calls\<close> of the controller state.
  An acquisition is recorded with the snapshot it obtained (\<open>None\<close> when it failed).
  Pure queries (\<open>vuEngineIsRunning\<close>, \<open>vuStateHasCameraFrame\<close>, the observation getters)
  are answered by the inputs and leave no record. Engine calls wrapped in the
  \<open>REQUIRE_SUCCESS\<close> macro are expected to succeed; the model follows the executions in
  which they do. \<open>LOG\<close> output is not modelled.
\<close>

type_synonym handle = nat

datatype VuResult = VU_FAILED | VU_SUCCESS

datatype VuObservationPoseStatus =
    VU_OBSERVATION_POSE_STATUS_NO_POSE
  | VU_OBSERVATION_POSE_STATUS_LIMITED
  | VU_OBSERVATION_POSE_STATUS_TRACKED
  | VU_OBSERVATION_POSE_STATUS_EXTENDED_TRACKED

datatype VuDevicePoseObservationStatusInfo =
    VU_DEVICE_POSE_OBSERVATION_STATUS_INFO_NORMAL
  | VU_DEVICE_POSE_OBSERVATION_STATUS_INFO_NOT_OBSERVED
  | VU_DEVICE_POSE_OBSERVATION_STATUS_INFO_UNKNOWN
  | VU_DEVICE_POSE_OBSERVATION_STATUS_INFO_INITIALIZING
  | VU_DEVICE_POSE_OBSERVATION_STATUS_INFO_RELOCALIZING
  | VU_DEVICE_POSE_OBSERVATION_STATUS_INFO_EXCESSIVE_MOTION
  | VU_DEVICE_POSE_OBSERVATION_STATUS_INFO_INSUFFICIENT_FEATURES
  | VU_DEVICE_POSE_OBSERVATION_STATUS_INFO_INSUFFICIENT_LIGHT

datatype VuCameraFocusMode =
    VU_CAMERA_FOCUS_MODE_CONTINUOUSAUTO
  | VU_CAMERA_FOCUS_MODE_TRIGGERAUTO

text \<open>Matrices are only copied by the operations modelled here; their entries are reals.\<close>

type_synonym VuMatrix44F = "real list"

definition vuIdentityMatrix44F :: VuMatrix44F where
  "vuIdentityMatrix44F = [1, 0, 0, 0,  0, 1, 0, 0,  0, 0, 1, 0,  0, 0, 0, 1]"

text \<open>Commands sent to the engine and callbacks into the client, as they are issued.\<close>

datatype engine_call =
    EngineConfigSetCreate
  | EngineConfigSetAddLicenseConfig
  | EngineConfigSetAddPlatformAndroidConfig
  | EngineConfigSetAddRenderConfig
  | EngineCreate
  | EngineConfigSetDestroy
  | RenderControllerSetProjectionMatrixNearFar
  | EngineCreateDevicePoseObserver
  | EngineCreateImageTargetObserver
  | EngineCreateModelTargetObserver
  | CameraControllerSetActiveVideoMode
  | EngineStart "handle option"
  | CameraControllerSetFocusMode VuCameraFocusMode
  | EngineStop "handle option"
  | ObserverDestroy handle
  | EngineDestroy "handle option"
  | EngineAcquireLatestState "handle option"
  | RenderControllerUpdateVideoBackgroundTexture
  | EngineResetWorldTracking "handle option"
  | StateRelease handle
  | ShowErrorCallback string
  | InitDoneCallback

section \<open>The controller state\<close>

record DevicePoseData =
  pose :: VuMatrix44F
  poseStatus :: VuObservationPoseStatus
  poseStatusInfo :: VuDevicePoseObservationStatusInfo

record VuRenderState =
  viewport :: "int \<times> int \<times> int \<times> int"
  vbMesh :: "handle option"

text \<open>
  \<open>steady_clock::time_point\<close> is a count of clock ticks; the clock of the Android
  toolchain ticks in nanoseconds.
\<close>

type_synonym time_point = int

record AppController =
  mEngine :: "handle option"
  mRenderController :: "handle option"
  mPlatformController :: "handle option"
  mTarget :: int
  mARStarted :: bool
  mCurrentRenderState :: VuRenderState
  mDevicePoseObserver :: "handle option"
  mLatestDevicePoseData :: DevicePoseData
  mTimingRelocalizingState :: bool
  mEnteredRelocalizingState :: time_point
  mObjectObserver :: "handle option"
  mVuforiaState :: "handle option"
  mGuideViewModelTarget :: "handle option"
  calls :: "engine_call list"

definition IMAGE_TARGET_ID :: int where
  "IMAGE_TARGET_ID = 0"

definition MODEL_TARGET_ID :: int where
  "MODEL_TARGET_ID = 1"

definition MAX_RELOCALIZING_SECONDS :: int where
  "MAX_RELOCALIZING_SECONDS = 15"

definition ticks_per_second :: int where
  "ticks_per_second = 1000000000"

text \<open>\<open>duration_cast<seconds>\<close> of a tick count: integer division truncating towards zero.\<close>

definition duration_cast_seconds :: "int \<Rightarrow> int" where
  "duration_cast_seconds d =
     (if 0 \<le> d then d div ticks_per_second else - ((- d) div ticks_per_second))"

text \<open>The member initialisers of the class: the state of a freshly constructed controller.\<close>

definition new_AppController :: AppController where
  "new_AppController =
     \<lparr> mEngine = None, mRenderController = None, mPlatformController = None,
       mTarget = IMAGE_TARGET_ID, mARStarted = False,
       mCurrentRenderState = \<lparr> viewport = (0, 0, 0, 0), vbMesh = None \<rparr>,
       mDevicePoseObserver = None,
       mLatestDevicePoseData =
         \<lparr> pose = replicate 16 0,
           poseStatus = VU_OBSERVATION_POSE_STATUS_NO_POSE,
           poseStatusInfo = VU_DEVICE_POSE_OBSERVATION_STATUS_INFO_UNKNOWN \<rparr>,
       mTimingRelocalizingState = False, mEnteredRelocalizingState = 0,
       mObjectObserver = None, mVuforiaState = None, mGuideViewModelTarget = None,
       calls = [] \<rparr>"

definition issue :: "engine_call \<Rightarrow> AppController \<Rightarrow> AppController" where
  "issue c s = s\<lparr>calls := calls s @ [c]\<rparr>"

definition isARStarted :: "AppController \<Rightarrow> bool" where
  "isARStarted s = mARStarted s"

section \<open>finishRender and the relocalization timer\<close>

text \<open>
  The inputs of one \<open>finishRender\<close> call: the two readings of \<open>steady_clock::now()\<close>
  (the first is taken only when timing starts) and the results of the two engine calls.
\<close>

record finishRender_env =
  now_entered :: time_point
  now_checked :: time_point
  resetResult :: VuResult
  releaseResult :: VuResult

definition relocalizing :: "AppController \<Rightarrow> bool" where
  "relocalizing s \<longleftrightarrow>
     poseStatus (mLatestDevicePoseData s) = VU_OBSERVATION_POSE_STATUS_LIMITED \<and>
     poseStatusInfo (mLatestDevicePoseData s) = VU_DEVICE_POSE_OBSERVATION_STATUS_INFO_RELOCALIZING"

definition finishRender :: "AppController \<Rightarrow> finishRender_env \<Rightarrow> AppController" where
  "finishRender s e =
     (let s1 =
        (if relocalizing s then
           (let s2 = (if \<not> mTimingRelocalizingState s
                      then s\<lparr>mEnteredRelocalizingState := now_entered e\<rparr> else s);
                s3 = s2\<lparr>mTimingRelocalizingState := True\<rparr>;
                relocalizingFor =
                  duration_cast_seconds (now_checked e - mEnteredRelocalizingState s3)
            in if relocalizingFor > MAX_RELOCALIZING_SECONDS
               then issue (EngineResetWorldTracking (mEngine s3))
                      (s3\<lparr>mTimingRelocalizingState := False\<rparr>)
               else s3)
         else s\<lparr>mTimingRelocalizingState := False\<rparr>);
         s4 = (case mVuforiaState s1 of
                 None \<Rightarrow> s1
               | Some st \<Rightarrow> issue (StateRelease st) s1)
      in s4\<lparr>mVuforiaState := None\<rparr>)"

section \<open>startAR, stopAR and deinitAR\<close>

record startAR_env =
  start_isRunning :: bool
  setActiveVideoModeResult :: VuResult
  engineStartResult :: VuResult
  setFocusModeResult :: VuResult

definition startAR :: "AppController \<Rightarrow> startAR_env \<Rightarrow> bool \<times> AppController" where
  "startAR s e =
     (if mEngine s = None then (False, s)
      else if start_isRunning e then (False, s)
      else
        (let s1 = issue CameraControllerSetActiveVideoMode s;
             s2 = issue (EngineStart (mEngine s1)) s1
         in if engineStartResult e \<noteq> VU_SUCCESS then (False, s2)
            else
              (let s3 = s2\<lparr>mARStarted := True\<rparr>;
                   s4 = issue (CameraControllerSetFocusMode VU_CAMERA_FOCUS_MODE_CONTINUOUSAUTO) s3
               in (True, s4))))"

record stopAR_env =
  stop_isRunning :: bool
  engineStopResult :: VuResult

definition stopAR :: "AppController \<Rightarrow> stopAR_env \<Rightarrow> bool \<times> AppController" where
  "stopAR s e =
     (if mEngine s = None then (False, s)
      else if \<not> stop_isRunning e then (False, s)
      else
        (let s1 = s\<lparr>mARStarted := False\<rparr>;
             s2 = issue (EngineStop (mEngine s1)) s1
         in if engineStopResult e \<noteq> VU_SUCCESS then (False, s2)
            else (True, s2)))"

record destroyObservers_env =
  objectObserverDestroyResult :: VuResult
  devicePoseObserverDestroyResult :: VuResult

definition destroyObservers :: "AppController \<Rightarrow> destroyObservers_env \<Rightarrow> AppController" where
  "destroyObservers s e =
     (let s1 = (case mObjectObserver s of
                  None \<Rightarrow> s
                | Some ob \<Rightarrow> issue (ObserverDestroy ob) s);
          s2 = s1\<lparr>mObjectObserver := None\<rparr>;
          s3 = (case mDevicePoseObserver s2 of
                  None \<Rightarrow> s2
                | Some ob \<Rightarrow> issue (ObserverDestroy ob) s2)
      in s3\<lparr>mDevicePoseObserver := None\<rparr>)"

record deinitAR_env =
  deinit_stop :: stopAR_env
  deinit_observers :: destroyObservers_env
  engineDestroyResult :: VuResult

definition deinitAR :: "AppController \<Rightarrow> deinitAR_env \<Rightarrow> AppController" where
  "deinitAR s e =
     (if mEngine s = None then s
      else
        (let s1 = snd (stopAR s (deinit_stop e));
             s2 = destroyObservers s1 (deinit_observers e);
             s3 = issue (EngineDestroy (mEngine s2)) s2
         in if engineDestroyResult e \<noteq> VU_SUCCESS then s3
            else s3\<lparr>mEngine := None, mRenderController := None,
                     mPlatformController := None\<rparr>))"

section \<open>prepareToRender and updateDevicePose\<close>

record observation =
  obs_poseStatus :: VuObservationPoseStatus
  obs_pose :: VuMatrix44F
  obs_statusInfo :: VuDevicePoseObservationStatusInfo

record updateDevicePose_env =
  getDevicePoseObservationsResult :: VuResult
  devicePoseObservations :: "observation list"
  devicePoseGetElementResult :: VuResult

definition updateDevicePose :: "AppController \<Rightarrow> updateDevicePose_env \<Rightarrow> AppController" where
  "updateDevicePose s e =
     (let d0 = \<lparr> pose = vuIdentityMatrix44F,
                 poseStatus = VU_OBSERVATION_POSE_STATUS_NO_POSE,
                 poseStatusInfo = VU_DEVICE_POSE_OBSERVATION_STATUS_INFO_NORMAL \<rparr>;
          d1 =
            (if getDevicePoseObservationsResult e = VU_SUCCESS then
               (case devicePoseObservations e of
                  [] \<Rightarrow> d0
                | ob # _ \<Rightarrow>
                    if devicePoseGetElementResult e = VU_SUCCESS then
                      (if obs_poseStatus ob \<noteq> VU_OBSERVATION_POSE_STATUS_NO_POSE
                       then \<lparr> pose = obs_pose ob, poseStatus = obs_poseStatus ob,
                              poseStatusInfo = obs_statusInfo ob \<rparr>
                       else d0)
                    else d0)
             else d0)
      in s\<lparr>mLatestDevicePoseData := d1\<rparr>)"

text \<open>
  \<open>vuEngineAcquireLatestState\<close> stores the new snapshot through its out-parameter when it
  succeeds; a failed call is taken to leave \<open>mVuforiaState\<close> as it was.
  The out-parameter \<open>viewport\<close> of \<open>prepareToRender\<close> is a result of the model:
  \<open>None\<close> means the caller's array was not written. The parameter \<open>renderData\<close> is an
  input: it is only handed on to \<open>vuRenderControllerUpdateVideoBackgroundTexture\<close>, so the
  video-background data of a frame is what that call, when it is issued, makes of it.
\<close>

record prepareToRender_env =
  acquireLatestStateResult :: VuResult
  acquiredState :: handle
  hasCameraFrame :: bool
  getRenderStateResult :: VuResult
  renderState :: VuRenderState
  updateVideoBackgroundTextureResult :: VuResult
  prepare_pose :: updateDevicePose_env

record prepareToRender_result =
  prepared :: bool
  viewport_out :: "real list option"
  controller :: AppController

definition prepareToRender :: "AppController \<Rightarrow> prepareToRender_env \<Rightarrow> prepareToRender_result" where
  "prepareToRender s e =
     (let s0 = issue (EngineAcquireLatestState
                        (if acquireLatestStateResult e = VU_SUCCESS
                         then Some (acquiredState e) else None)) s in
      if acquireLatestStateResult e \<noteq> VU_SUCCESS
      then \<lparr> prepared = False, viewport_out = None, controller = s0 \<rparr>
      else
        (let s1 = s0\<lparr>mVuforiaState := Some (acquiredState e)\<rparr> in
         if \<not> hasCameraFrame e
         then \<lparr> prepared = False, viewport_out = None, controller = s1 \<rparr>
         else if getRenderStateResult e \<noteq> VU_SUCCESS
         then \<lparr> prepared = False, viewport_out = None, controller = s1 \<rparr>
         else
           (let s2 = s1\<lparr>mCurrentRenderState := renderState e\<rparr> in
            if vbMesh (mCurrentRenderState s2) = None
            then \<lparr> prepared = False, viewport_out = None, controller = s2 \<rparr>
            else
              (let vp = (case viewport (mCurrentRenderState s2) of
                           (v0, v1, v2, v3) \<Rightarrow>
                             [real_of_int v0, real_of_int v1, real_of_int v2, real_of_int v3,
                              0, 1]);
                   s3 = issue RenderControllerUpdateVideoBackgroundTexture s2
               in if updateVideoBackgroundTextureResult e \<noteq> VU_SUCCESS
                  then \<lparr> prepared = False, viewport_out = Some vp, controller = s3 \<rparr>
                  else \<lparr> prepared = True, viewport_out = Some vp,
                         controller = updateDevicePose s3 (prepare_pose e) \<rparr>))))"

section \<open>initAR\<close>

type_synonym VuErrorCode = "32 word"

definition VU_ENGINE_CREATION_ERROR_NONE :: VuErrorCode where
  "VU_ENGINE_CREATION_ERROR_NONE = 0x0"

definition VU_ENGINE_CREATION_ERROR_DEVICE_NOT_SUPPORTED :: VuErrorCode where
  "VU_ENGINE_CREATION_ERROR_DEVICE_NOT_SUPPORTED = 0x1"

definition VU_ENGINE_CREATION_ERROR_PERMISSION_ERROR :: VuErrorCode where
  "VU_ENGINE_CREATION_ERROR_PERMISSION_ERROR = 0x2"

definition VU_ENGINE_CREATION_ERROR_LICENSE_ERROR :: VuErrorCode where
  "VU_ENGINE_CREATION_ERROR_LICENSE_ERROR = 0x3"

definition VU_ENGINE_CREATION_ERROR_INITIALIZATION :: VuErrorCode where
  "VU_ENGINE_CREATION_ERROR_INITIALIZATION = 0x4"

definition VU_ENGINE_CREATION_ERROR_DRIVER_CONFIG_LOAD_ERROR :: VuErrorCode where
  "VU_ENGINE_CREATION_ERROR_DRIVER_CONFIG_LOAD_ERROR = 0x100"

definition VU_ENGINE_CREATION_ERROR_LICENSE_CONFIG_MISSING_KEY :: VuErrorCode where
  "VU_ENGINE_CREATION_ERROR_LICENSE_CONFIG_MISSING_KEY = 0x200"

definition VU_ENGINE_CREATION_ERROR_LICENSE_CONFIG_INVALID_KEY :: VuErrorCode where
  "VU_ENGINE_CREATION_ERROR_LICENSE_CONFIG_INVALID_KEY = 0x201"

definition VU_ENGINE_CREATION_ERROR_LICENSE_CONFIG_NO_NETWORK_PERMANENT :: VuErrorCode where
  "VU_ENGINE_CREATION_ERROR_LICENSE_CONFIG_NO_NETWORK_PERMANENT = 0x202"

definition VU_ENGINE_CREATION_ERROR_LICENSE_CONFIG_NO_NETWORK_TRANSIENT :: VuErrorCode where
  "VU_ENGINE_CREATION_ERROR_LICENSE_CONFIG_NO_NETWORK_TRANSIENT = 0x203"

definition VU_ENGINE_CREATION_ERROR_LICENSE_CONFIG_BAD_REQUEST :: VuErrorCode where
  "VU_ENGINE_CREATION_ERROR_LICENSE_CONFIG_BAD_REQUEST = 0x204"

definition VU_ENGINE_CREATION_ERROR_LICENSE_CONFIG_KEY_CANCELED :: VuErrorCode where
  "VU_ENGINE_CREATION_ERROR_LICENSE_CONFIG_KEY_CANCELED = 0x205"

definition VU_ENGINE_CREATION_ERROR_LICENSE_CONFIG_PRODUCT_TYPE_MISMATCH :: VuErrorCode where
  "VU_ENGINE_CREATION_ERROR_LICENSE_CONFIG_PRODUCT_TYPE_MISMATCH = 0x206"

definition VU_ENGINE_CREATION_ERROR_LICENSE_CONFIG_UNKNOWN :: VuErrorCode where
  "VU_ENGINE_CREATION_ERROR_LICENSE_CONFIG_UNKNOWN = 0x207"

definition VU_ENGINE_CREATION_ERROR_RENDER_CONFIG_UNSUPPORTED_BACKEND :: VuErrorCode where
  "VU_ENGINE_CREATION_ERROR_RENDER_CONFIG_UNSUPPORTED_BACKEND = 0x300"

definition VU_ENGINE_CREATION_ERROR_RENDER_CONFIG_FAILED_TO_SET_VIDEO_BG_VIEWPORT :: VuErrorCode where
  "VU_ENGINE_CREATION_ERROR_RENDER_CONFIG_FAILED_TO_SET_VIDEO_BG_VIEWPORT = 0x301"

definition initErrorToString :: "VuErrorCode \<Rightarrow> string" where
  "initErrorToString error =
     (if error = VU_ENGINE_CREATION_ERROR_DEVICE_NOT_SUPPORTED then
        ''Vuforia failed to initialize because the device is not supported.''
      else if error = VU_ENGINE_CREATION_ERROR_PERMISSION_ERROR then
        ''Vuforia cannot initialize because access to the camera was denied.''
      else if error = VU_ENGINE_CREATION_ERROR_LICENSE_ERROR then
        ''Vuforia cannot initialize because a valid license configuration is required.''
      else if error = VU_ENGINE_CREATION_ERROR_LICENSE_CONFIG_MISSING_KEY then
        ''Vuforia failed to initialize because the license key is missing.''
      else if error = VU_ENGINE_CREATION_ERROR_LICENSE_CONFIG_INVALID_KEY then
        ''Vuforia failed to initialize because the license key is invalid.''
      else if error = VU_ENGINE_CREATION_ERROR_LICENSE_CONFIG_NO_NETWORK_PERMANENT then
        ''Vuforia failed to initialize because the license check encountered a permanent network error.''
      else if error = VU_ENGINE_CREATION_ERROR_LICENSE_CONFIG_NO_NETWORK_TRANSIENT then
        ''Vuforia failed to initialize because the license check encountered a temporary network error.''
      else if error = VU_ENGINE_CREATION_ERROR_LICENSE_CONFIG_BAD_REQUEST then
        ''Vuforia failed to initialize because the request to the license server is malformed, ensure the app has valid name and version fields.''
      else if error = VU_ENGINE_CREATION_ERROR_LICENSE_CONFIG_KEY_CANCELED then
        ''Vuforia failed to initialize because the license key was canceled.''
      else if error = VU_ENGINE_CREATION_ERROR_LICENSE_CONFIG_PRODUCT_TYPE_MISMATCH then
        ''Vuforia failed to initialize because the license key is for the wrong product type.''
      else if error = VU_ENGINE_CREATION_ERROR_LICENSE_CONFIG_UNKNOWN then
        ''Vuforia failed to initialize because the license check encountered an unknown error.''
      else if error = VU_ENGINE_CREATION_ERROR_RENDER_CONFIG_UNSUPPORTED_BACKEND then
        ''Vuforia failed to initialize because the requested rendering backend is not supported on this platform or device.''
      else if error = VU_ENGINE_CREATION_ERROR_RENDER_CONFIG_FAILED_TO_SET_VIDEO_BG_VIEWPORT then
        ''Vuforia failed to initialize because the requested videobackground viewport could not be set.''
      else ''Vuforia initialization failed'')"

text \<open>
  The error codes that \<open>initErrorToString\<close> names in a \<open>case\<close> of its own;
  \<open>VU_ENGINE_CREATION_ERROR_INITIALIZATION\<close> shares the \<open>default\<close> branch.
\<close>

definition named_creation_errors :: "VuErrorCode list" where
  "named_creation_errors =
     [VU_ENGINE_CREATION_ERROR_DEVICE_NOT_SUPPORTED,
      VU_ENGINE_CREATION_ERROR_PERMISSION_ERROR,
      VU_ENGINE_CREATION_ERROR_LICENSE_ERROR,
      VU_ENGINE_CREATION_ERROR_LICENSE_CONFIG_MISSING_KEY,
      VU_ENGINE_CREATION_ERROR_LICENSE_CONFIG_INVALID_KEY,
      VU_ENGINE_CREATION_ERROR_LICENSE_CONFIG_NO_NETWORK_PERMANENT,
      VU_ENGINE_CREATION_ERROR_LICENSE_CONFIG_NO_NETWORK_TRANSIENT,
      VU_ENGINE_CREATION_ERROR_LICENSE_CONFIG_BAD_REQUEST,
      VU_ENGINE_CREATION_ERROR_LICENSE_CONFIG_KEY_CANCELED,
      VU_ENGINE_CREATION_ERROR_LICENSE_CONFIG_PRODUCT_TYPE_MISMATCH,
      VU_ENGINE_CREATION_ERROR_LICENSE_CONFIG_UNKNOWN,
      VU_ENGINE_CREATION_ERROR_RENDER_CONFIG_UNSUPPORTED_BACKEND,
      VU_ENGINE_CREATION_ERROR_RENDER_CONFIG_FAILED_TO_SET_VIDEO_BG_VIEWPORT]"

text \<open>
  The inputs of \<open>initAR\<close>. The Android build is modelled (\<open>VU_PLATFORM_ANDROID\<close> defined).
  \<open>createdEngine\<close> is what a successful \<open>vuEngineCreate\<close> stores in \<open>mEngine\<close>, which
  the code still tests against null; failed creation calls are taken to leave their
  out-parameter as it was.
\<close>

record initAR_env =
  addLicenseConfigResult :: VuResult
  addPlatformConfigResult :: VuResult
  addRenderConfigResult :: VuResult
  engineCreateResult :: VuResult
  engineCreateError :: VuErrorCode
  createdEngine :: "handle option"
  renderControllerHandle :: handle
  platformControllerHandle :: handle
  setProjectionMatrixNearFarResult :: VuResult
  createDevicePoseObserverResult :: VuResult
  createdDevicePoseObserver :: handle
  createObjectObserverResult :: VuResult
  createdObjectObserver :: handle

definition initVuforiaInternal :: "AppController \<Rightarrow> initAR_env \<Rightarrow> bool \<times> AppController" where
  "initVuforiaInternal s e =
     (if mEngine s \<noteq> None then (False, s)
      else
        (let s1 = issue EngineConfigSetAddLicenseConfig (issue EngineConfigSetCreate s) in
         if addLicenseConfigResult e \<noteq> VU_SUCCESS then
           (False,
            issue (ShowErrorCallback
                ''Vuforia failed to initialize because the license key could not be added to the configuration'')
              (issue EngineConfigSetDestroy s1))
         else
           (let s2 = issue EngineConfigSetAddPlatformAndroidConfig s1 in
            if addPlatformConfigResult e \<noteq> VU_SUCCESS then
              (False,
               issue (ShowErrorCallback
                   ''Vuforia failed to initialize, could not apply platform-specific configuration'')
                 (issue EngineConfigSetDestroy s2))
            else
              (let s3 = issue EngineConfigSetAddRenderConfig s2 in
               if addRenderConfigResult e \<noteq> VU_SUCCESS then
                 (False,
                  issue (ShowErrorCallback
                      ''Vuforia failed to initialize, could not configure rendering'')
                    (issue EngineConfigSetDestroy s3))
               else
                 (let s4 = issue EngineCreate s3;
                      s5 = (if engineCreateResult e = VU_SUCCESS
                            then s4\<lparr>mEngine := createdEngine e\<rparr> else s4);
                      s6 = issue EngineConfigSetDestroy s5
                  in if engineCreateResult e \<noteq> VU_SUCCESS then
                       (False,
                        issue (ShowErrorCallback (initErrorToString (engineCreateError e))) s6)
                     else if mEngine s6 = None then
                       (False, issue (ShowErrorCallback ''Vuforia initialization failed.'') s6)
                     else
                       (let s7 = s6\<lparr>mRenderController := Some (renderControllerHandle e),
                                     mPlatformController := Some (platformControllerHandle e)\<rparr>;
                            s8 = issue RenderControllerSetProjectionMatrixNearFar s7
                        in if setProjectionMatrixNearFarResult e \<noteq> VU_SUCCESS
                           then (False, s8)
                           else (True, s8)))))))"

definition createObservers :: "AppController \<Rightarrow> initAR_env \<Rightarrow> bool \<times> AppController" where
  "createObservers s e =
     (let s1 = issue EngineCreateDevicePoseObserver s in
      if createDevicePoseObserverResult e \<noteq> VU_SUCCESS then (False, s1)
      else
        (let s2 = s1\<lparr>mDevicePoseObserver := Some (createdDevicePoseObserver e)\<rparr> in
         if mTarget s2 = IMAGE_TARGET_ID then
           (let s3 = issue EngineCreateImageTargetObserver s2 in
            if createObjectObserverResult e \<noteq> VU_SUCCESS
            then (False, issue (ShowErrorCallback ''Error creating image target observer'') s3)
            else (True, s3\<lparr>mObjectObserver := Some (createdObjectObserver e)\<rparr>))
         else
           (let s3 = issue EngineCreateModelTargetObserver s2 in
            if createObjectObserverResult e \<noteq> VU_SUCCESS
            then (False, issue (ShowErrorCallback ''Error creating model target observer'') s3)
            else (True, s3\<lparr>mObjectObserver := Some (createdObjectObserver e)\<rparr>))))"

definition initAR :: "AppController \<Rightarrow> initAR_env \<Rightarrow> int \<Rightarrow> AppController" where
  "initAR s e target =
     (let s0 = s\<lparr>mTarget := target, mGuideViewModelTarget := None\<rparr> in
      case initVuforiaInternal s0 e of
        (False, s1) \<Rightarrow> s1
      | (True, s1) \<Rightarrow>
          (case createObservers s1 e of
             (False, s2) \<Rightarrow> s2
           | (True, s2) \<Rightarrow> issue InitDoneCallback s2))"

section \<open>Model target results and the guide view\<close>

record modelTargetObservation =
  mt_poseStatus :: VuObservationPoseStatus
  activeGuideViewName :: "string option"

record getModelTargetResult_env =
  getModelTargetObservationsResult :: VuResult
  modelTargetObservations :: "modelTargetObservation list"
  modelTargetGetElementResult :: VuResult
  getGuideViewsResult :: VuResult
  guideViews :: "(handle \<times> string) list"

text \<open>
  The loop of the lambda that selects the guide view: the first guide view whose name
  equals the active guide view name, null when there is none. \<open>strcmp\<close> on a null
  \<open>activeGuideViewName\<close> is undefined behaviour: the outer \<open>None\<close>.
\<close>

fun select_guide_view :: "(handle \<times> string) list \<Rightarrow> string option \<Rightarrow> handle option option" where
  "select_guide_view [] active = Some None"
| "select_guide_view ((gv, guideViewName) # rest) active =
     (case active of
        None \<Rightarrow> None
      | Some activeName \<Rightarrow>
          if guideViewName = activeName then Some (Some gv)
          else select_guide_view rest active)"

text \<open>
  \<open>getModelTargetResult\<close>: the returned flag and the new controller state, or \<open>None\<close>
  where the C++ has undefined behaviour. The three matrix out-parameters are floating
  point products and are left out; they are written only on the branch that returns true.
\<close>

definition getModelTargetResult ::
    "AppController \<Rightarrow> getModelTargetResult_env \<Rightarrow> (bool \<times> AppController) option" where
  "getModelTargetResult s e =
     (if mTarget s \<noteq> MODEL_TARGET_ID then Some (False, s)
      else if getModelTargetObservationsResult e \<noteq> VU_SUCCESS then Some (False, s)
      else
        (case modelTargetObservations e of
           [] \<Rightarrow> Some (False, s)
         | ob # _ \<Rightarrow>
             if modelTargetGetElementResult e = VU_SUCCESS then
               (if mt_poseStatus ob = VU_OBSERVATION_POSE_STATUS_NO_POSE then
                  (if getGuideViewsResult e \<noteq> VU_SUCCESS then Some (False, s)
                   else
                     (case select_guide_view (guideViews e) (activeGuideViewName ob) of
                        None \<Rightarrow> None
                      | Some gv \<Rightarrow> Some (False, s\<lparr>mGuideViewModelTarget := gv\<rparr>)))
                else Some (True, s\<lparr>mGuideViewModelTarget := None\<rparr>))
             else Some (False, s)))"

record getModelTargetGuideView_env =
  getCameraIntrinsicsResult :: VuResult
  isImageOutdatedResult :: VuResult
  guideViewGetImageResult :: VuResult
  getImageInfoResult :: VuResult

text \<open>
  \<open>getModelTargetGuideView\<close> does not change the controller; its matrices and image info
  are floating point and are left out, the returned flag is kept.
\<close>

definition getModelTargetGuideView :: "AppController \<Rightarrow> getModelTargetGuideView_env \<Rightarrow> bool" where
  "getModelTargetGuideView s e =
     (if mGuideViewModelTarget s = None then False
      else if getCameraIntrinsicsResult e \<noteq> VU_SUCCESS then False
      else if isImageOutdatedResult e \<noteq> VU_SUCCESS then False
      else if guideViewGetImageResult e \<noteq> VU_SUCCESS then False
      else if getImageInfoResult e \<noteq> VU_SUCCESS then False
      else True)"

section \<open>Sequences of frames\<close>

text \<open>
  A frame of the relocalization timer: the device-pose status cached in
  \<open>mLatestDevicePoseData\<close> when \<open>finishRender\<close> is called, and the inputs of that call.
\<close>

record frame =
  frame_poseStatus :: VuObservationPoseStatus
  frame_statusInfo :: VuDevicePoseObservationStatusInfo
  frame_env :: finishRender_env

definition observe :: "AppController \<Rightarrow> frame \<Rightarrow> AppController" where
  "observe s f =
     s\<lparr>mLatestDevicePoseData :=
         (mLatestDevicePoseData s)\<lparr>poseStatus := frame_poseStatus f,
                                    poseStatusInfo := frame_statusInfo f\<rparr>\<rparr>"

definition render_frame :: "AppController \<Rightarrow> frame \<Rightarrow> AppController" where
  "render_frame s f = finishRender (observe s f) (frame_env f)"

text \<open>The time from which a frame measures: the stored entry time, or now when timing starts.\<close>

definition run_start :: "AppController \<Rightarrow> frame \<Rightarrow> time_point" where
  "run_start s f = (if mTimingRelocalizingState s then mEnteredRelocalizingState s
                    else now_entered (frame_env f))"

fun run_frames :: "AppController \<Rightarrow> frame list \<Rightarrow> AppController" where
  "run_frames s [] = s"
| "run_frames s (f # fs) = run_frames (render_frame s f) fs"

fun is_reset :: "engine_call \<Rightarrow> bool" where
  "is_reset (EngineResetWorldTracking _) = True"
| "is_reset _ = False"

definition reset_count :: "AppController \<Rightarrow> nat" where
  "reset_count s = length (filter is_reset (calls s))"

definition frame_relocalizing :: "frame \<Rightarrow> bool" where
  "frame_relocalizing f \<longleftrightarrow>
     frame_poseStatus f = VU_OBSERVATION_POSE_STATUS_LIMITED \<and>
     frame_statusInfo f = VU_DEVICE_POSE_OBSERVATION_STATUS_INFO_RELOCALIZING"

text \<open>
  When is a tick count over the threshold? The code compares whole seconds, after
  \<open>duration_cast\<close>; the sentence "a duration exceeding the 15-second threshold" compares
  the duration itself.
\<close>

definition over_threshold_whole_seconds :: "int \<Rightarrow> bool" where
  "over_threshold_whole_seconds d \<longleftrightarrow> duration_cast_seconds d > MAX_RELOCALIZING_SECONDS"

definition over_threshold_exact :: "int \<Rightarrow> bool" where
  "over_threshold_exact d \<longleftrightarrow> d > MAX_RELOCALIZING_SECONDS * ticks_per_second"

text \<open>
  \<open>exceeded_in_run over t0 fs\<close>: the frames at the head of \<open>fs\<close> continue, without
  interruption, a relocalizing run that began at time \<open>t0\<close>, and at one of them the time
  since \<open>t0\<close> is over the threshold.
  \<open>sustained over prev fs\<close>: somewhere in \<open>fs\<close> a relocalizing run begins (the frame
  before it, if any, is not relocalizing; \<open>prev\<close> tells whether the frame before \<open>fs\<close>
  was) and lasts, uninterrupted, until the time since its first frame is over the threshold.
\<close>

fun exceeded_in_run :: "(int \<Rightarrow> bool) \<Rightarrow> time_point \<Rightarrow> frame list \<Rightarrow> bool" where
  "exceeded_in_run over t0 [] = False"
| "exceeded_in_run over t0 (f # fs) =
     (frame_relocalizing f \<and>
      (over (now_checked (frame_env f) - t0) \<or> exceeded_in_run over t0 fs))"

fun sustained :: "(int \<Rightarrow> bool) \<Rightarrow> bool \<Rightarrow> frame list \<Rightarrow> bool" where
  "sustained over prev [] = False"
| "sustained over prev (f # fs) =
     ((\<not> prev \<and> exceeded_in_run over (now_entered (frame_env f)) (f # fs)) \<or>
      sustained over (frame_relocalizing f) fs)"

text \<open>
  The scenario of consecutive relocalizing frames at a fixed frame rate: frame \<open>k\<close> is
  rendered \<open>k / fps\<close> seconds after the first, and both clock readings of a frame return
  the frame's time.
\<close>

definition frame_time :: "nat \<Rightarrow> nat \<Rightarrow> time_point" where
  "frame_time fps k = (int k * ticks_per_second) div int fps"

definition relocalizing_frame :: "time_point \<Rightarrow> frame" where
  "relocalizing_frame t =
     \<lparr> frame_poseStatus = VU_OBSERVATION_POSE_STATUS_LIMITED,
       frame_statusInfo = VU_DEVICE_POSE_OBSERVATION_STATUS_INFO_RELOCALIZING,
       frame_env = \<lparr> now_entered = t, now_checked = t,
                     resetResult = VU_SUCCESS, releaseResult = VU_SUCCESS \<rparr> \<rparr>"

definition relocalizing_frames :: "nat \<Rightarrow> nat \<Rightarrow> frame list" where
  "relocalizing_frames fps n = map (\<lambda>k. relocalizing_frame (frame_time fps k)) [0..<n]"

section \<open>Snapshots held by the client\<close>

text \<open>
  The snapshots acquired and not yet handed to \<open>vuStateRelease\<close>, read off the record of
  calls. One render cycle is \<open>prepareToRender\<close> followed by \<open>finishRender\<close>, as the
  header asks ("whatever the result of this call finishRender must be called").
\<close>

fun held_step :: "handle list \<Rightarrow> engine_call \<Rightarrow> handle list" where
  "held_step hs (EngineAcquireLatestState (Some st)) = st # hs"
| "held_step hs (StateRelease st) = remove1 st hs"
| "held_step hs _ = hs"

definition held :: "AppController \<Rightarrow> handle list" where
  "held s = foldl held_step [] (calls s)"

fun is_acquire :: "engine_call \<Rightarrow> bool" where
  "is_acquire (EngineAcquireLatestState _) = True"
| "is_acquire _ = False"

fun is_release :: "engine_call \<Rightarrow> bool" where
  "is_release (StateRelease _) = True"
| "is_release _ = False"

definition render_cycle ::
    "AppController \<Rightarrow> prepareToRender_env \<times> finishRender_env \<Rightarrow> AppController" where
  "render_cycle s pf = finishRender (controller (prepareToRender s (fst pf))) (snd pf)"

fun run_cycles ::
    "AppController \<Rightarrow> (prepareToRender_env \<times> finishRender_env) list \<Rightarrow> AppController" where
  "run_cycles s [] = s"
| "run_cycles s (pf # pfs) = run_cycles (render_cycle s pf) pfs"

section \<open>Reading the record of calls\<close>

fun shown_error :: "engine_call \<Rightarrow> string option" where
  "shown_error (ShowErrorCallback m) = Some m"
| "shown_error _ = None"

text \<open>The calls issued between a state and a later one, and the error messages among them.\<close>

definition issued_since :: "AppController \<Rightarrow> AppController \<Rightarrow> engine_call list" where
  "issued_since s s' = drop (length (calls s)) (calls s')"

definition errors_shown :: "AppController \<Rightarrow> AppController \<Rightarrow> string list" where
  "errors_shown s s' = List.map_filter shown_error (issued_since s s')"

definition init_done :: "AppController \<Rightarrow> AppController \<Rightarrow> bool" where
  "init_done s s' \<longleftrightarrow> InitDoneCallback \<in> set (issued_since s s')"

definition config_accepted :: "initAR_env \<Rightarrow> bool" where
  "config_accepted e \<longleftrightarrow>
     addLicenseConfigResult e = VU_SUCCESS \<and> addPlatformConfigResult e = VU_SUCCESS \<and>
     addRenderConfigResult e = VU_SUCCESS"

definition engine_created :: "initAR_env \<Rightarrow> bool" where
  "engine_created e \<longleftrightarrow>
     config_accepted e \<and> engineCreateResult e = VU_SUCCESS \<and> createdEngine e \<noteq> None"

section \<open>Concrete controllers and engine answers\<close>

definition clock_env :: "time_point \<Rightarrow> finishRender_env" where
  "clock_env t = \<lparr> now_entered = t, now_checked = t,
                   resetResult = VU_SUCCESS, releaseResult = VU_SUCCESS \<rparr>"

definition relocalizing_controller :: AppController where
  "relocalizing_controller =
     new_AppController
       \<lparr> mLatestDevicePoseData :=
           \<lparr> pose = vuIdentityMatrix44F,
             poseStatus = VU_OBSERVATION_POSE_STATUS_LIMITED,
             poseStatusInfo = VU_DEVICE_POSE_OBSERVATION_STATUS_INFO_RELOCALIZING \<rparr> \<rparr>"

definition timing_controller :: AppController where
  "timing_controller =
     relocalizing_controller
       \<lparr> mEngine := Some 1, mTimingRelocalizingState := True,
         mEnteredRelocalizingState := 0, mVuforiaState := Some 7 \<rparr>"

definition running_controller :: AppController where
  "running_controller =
     new_AppController
       \<lparr> mEngine := Some 1, mRenderController := Some 2, mPlatformController := Some 3,
         mARStarted := True, mDevicePoseObserver := Some 4, mObjectObserver := Some 5 \<rparr>"

definition model_target_controller :: AppController where
  "model_target_controller =
     running_controller \<lparr> mTarget := MODEL_TARGET_ID, mGuideViewModelTarget := Some 9 \<rparr>"

definition init_env_ok :: initAR_env where
  "init_env_ok =
     \<lparr> addLicenseConfigResult = VU_SUCCESS, addPlatformConfigResult = VU_SUCCESS,
       addRenderConfigResult = VU_SUCCESS, engineCreateResult = VU_SUCCESS,
       engineCreateError = VU_ENGINE_CREATION_ERROR_NONE, createdEngine = Some 1,
       renderControllerHandle = 2, platformControllerHandle = 3,
       setProjectionMatrixNearFarResult = VU_SUCCESS,
       createDevicePoseObserverResult = VU_SUCCESS, createdDevicePoseObserver = 4,
       createObjectObserverResult = VU_SUCCESS, createdObjectObserver = 5 \<rparr>"

definition start_env :: "bool \<Rightarrow> startAR_env" where
  "start_env running =
     \<lparr> start_isRunning = running, setActiveVideoModeResult = VU_SUCCESS,
       engineStartResult = VU_SUCCESS, setFocusModeResult = VU_SUCCESS \<rparr>"

definition stop_env :: "bool \<Rightarrow> VuResult \<Rightarrow> stopAR_env" where
  "stop_env running r = \<lparr> stop_isRunning = running, engineStopResult = r \<rparr>"

definition deinit_env :: "VuResult \<Rightarrow> deinitAR_env" where
  "deinit_env r =
     \<lparr> deinit_stop = stop_env True VU_SUCCESS,
       deinit_observers = \<lparr> objectObserverDestroyResult = VU_SUCCESS,
                            devicePoseObserverDestroyResult = VU_SUCCESS \<rparr>,
       engineDestroyResult = r \<rparr>"

definition tracked_pose :: observation where
  "tracked_pose =
     \<lparr> obs_poseStatus = VU_OBSERVATION_POSE_STATUS_TRACKED,
       obs_pose = [1, 0, 0, 0,  0, 1, 0, 0,  0, 0, 1, 0,  2, 3, 4, 1],
       obs_statusInfo = VU_DEVICE_POSE_OBSERVATION_STATUS_INFO_NORMAL \<rparr>"

definition prepare_env_ok :: prepareToRender_env where
  "prepare_env_ok =
     \<lparr> acquireLatestStateResult = VU_SUCCESS, acquiredState = 7, hasCameraFrame = True,
       getRenderStateResult = VU_SUCCESS,
       renderState = \<lparr> viewport = (0, 0, 1080, 1920), vbMesh = Some 6 \<rparr>,
       updateVideoBackgroundTextureResult = VU_SUCCESS,
       prepare_pose = \<lparr> getDevicePoseObservationsResult = VU_SUCCESS,
                        devicePoseObservations = [tracked_pose],
                        devicePoseGetElementResult = VU_SUCCESS \<rparr> \<rparr>"

definition model_target_env :: "VuObservationPoseStatus \<Rightarrow> getModelTargetResult_env" where
  "model_target_env st =
     \<lparr> getModelTargetObservationsResult = VU_SUCCESS,
       modelTargetObservations =
         [\<lparr> mt_poseStatus = st, activeGuideViewName = Some ''front'' \<rparr>],
       modelTargetGetElementResult = VU_SUCCESS,
       getGuideViewsResult = VU_SUCCESS,
       guideViews = [(8, ''back''), (9, ''front'')] \<rparr>"

definition guide_view_env :: getModelTargetGuideView_env where
  "guide_view_env =
     \<lparr> getCameraIntrinsicsResult = VU_SUCCESS, isImageOutdatedResult = VU_SUCCESS,
       guideViewGetImageResult = VU_SUCCESS, getImageInfoResult = VU_SUCCESS \<rparr>"

section \<open>Basic facts about the state\<close>

lemma issue_fields [simp]:
  "mEnteredRelocalizingState (issue c s) = mEnteredRelocalizingState s"
  "mTimingRelocalizingState (issue c s) = mTimingRelocalizingState s"
  "mEngine (issue c s) = mEngine s"
  "mRenderController (issue c s) = mRenderController s"
  "mPlatformController (issue c s) = mPlatformController s"
  "mARStarted (issue c s) = mARStarted s"
  "mObjectObserver (issue c s) = mObjectObserver s"
  "mDevicePoseObserver (issue c s) = mDevicePoseObserver s"
  "mVuforiaState (issue c s) = mVuforiaState s"
  "mGuideViewModelTarget (issue c s) = mGuideViewModelTarget s"
  "mLatestDevicePoseData (issue c s) = mLatestDevicePoseData s"
  "mCurrentRenderState (issue c s) = mCurrentRenderState s"
  "mTarget (issue c s) = mTarget s"
  "calls (issue c s) = calls s @ [c]"
  by (simp_all add: issue_def)

lemma new_AppController_state [simp]:
  "mTarget new_AppController = IMAGE_TARGET_ID"
  "\<not> mARStarted new_AppController"
  "mGuideViewModelTarget new_AppController = None"
  "calls new_AppController = []"
  "\<not> relocalizing new_AppController"
  "mEnteredRelocalizingState new_AppController = 0"
  "mObjectObserver new_AppController = None"
  "mDevicePoseObserver new_AppController = None"
  "\<not> mTimingRelocalizingState new_AppController"
  "reset_count new_AppController = 0"
  "mVuforiaState new_AppController = None"
  "mEngine new_AppController = None"
  by (simp_all add: new_AppController_def relocalizing_def reset_count_def)

lemma clock_env_fields [simp]:
  "now_entered (clock_env t) = t" "now_checked (clock_env t) = t"
  by (simp_all add: clock_env_def)

lemma running_controller_fields [simp]:
  "mEngine running_controller = Some 1"
  "mRenderController running_controller = Some 2"
  "mPlatformController running_controller = Some 3"
  "mARStarted running_controller"
  "mDevicePoseObserver running_controller = Some 4"
  "mObjectObserver running_controller = Some 5"
  "mVuforiaState running_controller = None"
  "calls running_controller = []"
  by (simp_all add: running_controller_def)

lemma model_target_controller_fields [simp]:
  "mTarget model_target_controller = MODEL_TARGET_ID"
  "mGuideViewModelTarget model_target_controller = Some 9"
  by (simp_all add: model_target_controller_def)

section \<open>Properties of the relocalization timer\<close>

lemma finishRender_entered:
  "mEnteredRelocalizingState (finishRender s e) =
     (if relocalizing s \<and> \<not> mTimingRelocalizingState s then now_entered e
      else mEnteredRelocalizingState s)"
  by (simp add: finishRender_def issue_def Let_def split: option.split)

lemma finishRender_timing:
  "mTimingRelocalizingState (finishRender s e) =
     (relocalizing s \<and>
      \<not> over_threshold_whole_seconds
          (now_checked e - (if mTimingRelocalizingState s then mEnteredRelocalizingState s
                            else now_entered e)))"
  by (simp add: finishRender_def issue_def Let_def over_threshold_whole_seconds_def split: option.split)

lemma finishRender_reset_count:
  "reset_count (finishRender s e) =
     reset_count s +
     (if relocalizing s \<and>
         over_threshold_whole_seconds
          (now_checked e - (if mTimingRelocalizingState s then mEnteredRelocalizingState s
                            else now_entered e))
      then 1 else 0)"
  by (simp add: finishRender_def issue_def Let_def reset_count_def over_threshold_whole_seconds_def split: option.split)

lemma observe_fields [simp]:
  "relocalizing (observe s f) = frame_relocalizing f"
  "mTimingRelocalizingState (observe s f) = mTimingRelocalizingState s"
  "mEnteredRelocalizingState (observe s f) = mEnteredRelocalizingState s"
  "reset_count (observe s f) = reset_count s"
  by (simp_all add: observe_def relocalizing_def frame_relocalizing_def reset_count_def)

lemma render_frame_timing:
  "mTimingRelocalizingState (render_frame s f) =
     (frame_relocalizing f \<and>
      \<not> over_threshold_whole_seconds (now_checked (frame_env f) - run_start s f))"
  by (simp add: render_frame_def finishRender_timing run_start_def)

lemma render_frame_entered:
  "mEnteredRelocalizingState (render_frame s f) =
     (if frame_relocalizing f then run_start s f else mEnteredRelocalizingState s)"
  by (simp add: render_frame_def finishRender_entered run_start_def)

lemma render_frame_reset_count:
  "reset_count (render_frame s f) =
     reset_count s +
     (if frame_relocalizing f \<and>
         over_threshold_whole_seconds (now_checked (frame_env f) - run_start s f)
      then 1 else 0)"
  by (simp add: render_frame_def finishRender_reset_count run_start_def)

lemma reset_count_run_frames_mono: "reset_count s \<le> reset_count (run_frames s fs)"
proof (induction fs arbitrary: s)
  case Nil
  show ?case by simp
next
  case (Cons f fs)
  have "reset_count s \<le> reset_count (render_frame s f)"
    by (simp add: render_frame_reset_count)
  also have "\<dots> \<le> reset_count (run_frames (render_frame s f) fs)"
    by (rule Cons.IH)
  finally show ?case by simp
qed

lemma run_frames_reset_iff:
  "reset_count s < reset_count (run_frames s fs) \<longleftrightarrow>
     (if mTimingRelocalizingState s
      then exceeded_in_run over_threshold_whole_seconds (mEnteredRelocalizingState s) fs \<or>
           sustained over_threshold_whole_seconds True fs
      else sustained over_threshold_whole_seconds False fs)"
proof (induction fs arbitrary: s)
  case Nil
  show ?case by simp
next
  case (Cons f fs)
  let ?s' = "render_frame s f"
  let ?over = "over_threshold_whole_seconds (now_checked (frame_env f) - run_start s f)"
  show ?case
  proof (cases "frame_relocalizing f")
    case False
    then have t: "\<not> mTimingRelocalizingState ?s'" and c: "reset_count ?s' = reset_count s"
      by (simp_all add: render_frame_timing render_frame_reset_count)
    from Cons.IH [of ?s'] t c False show ?thesis by simp
  next
    case True
    show ?thesis
    proof (cases ?over)
      case over: True
      with True have "reset_count s < reset_count ?s'"
        by (simp add: render_frame_reset_count)
      also have "\<dots> \<le> reset_count (run_frames ?s' fs)"
        by (rule reset_count_run_frames_mono)
      finally have lhs: "reset_count s < reset_count (run_frames s (f # fs))" by simp
      from over True show ?thesis
        using lhs by (simp add: run_start_def split: if_splits)
    next
      case nover: False
      with True have t: "mTimingRelocalizingState ?s'"
        and en: "mEnteredRelocalizingState ?s' = run_start s f"
        and c: "reset_count ?s' = reset_count s"
        by (simp_all add: render_frame_timing render_frame_reset_count render_frame_entered)
      from Cons.IH [of ?s'] t en c True nover show ?thesis
        by (auto simp: run_start_def split: if_splits)
    qed
  qed
qed


lemma run_frames_append: "run_frames s (xs @ ys) = run_frames (run_frames s xs) ys"
  by (induction xs arbitrary: s) simp_all

lemma relocalizing_frames_0 [simp]: "relocalizing_frames fps 0 = []"
  by (simp add: relocalizing_frames_def)

lemma over_threshold_at_16: "over_threshold_whole_seconds (16 * ticks_per_second)"
  by (simp add: over_threshold_whole_seconds_def duration_cast_seconds_def
        MAX_RELOCALIZING_SECONDS_def ticks_per_second_def)

lemma relocalizing_frames_Suc:
  "relocalizing_frames fps (Suc n) =
     relocalizing_frames fps n @ [relocalizing_frame (frame_time fps n)]"
  by (simp add: relocalizing_frames_def)

lemma relocalizing_frame_fields [simp]:
  "frame_relocalizing (relocalizing_frame t)"
  "now_entered (frame_env (relocalizing_frame t)) = t"
  "now_checked (frame_env (relocalizing_frame t)) = t"
  by (simp_all add: relocalizing_frame_def frame_relocalizing_def)

lemma frame_time_0 [simp]: "frame_time fps 0 = 0"
  by (simp add: frame_time_def)

lemma frame_time_nat: "frame_time fps k = int ((k * 1000000000) div fps)"
  by (simp add: frame_time_def ticks_per_second_def zdiv_int)

lemma frame_time_nonneg: "0 \<le> frame_time fps k"
  by (simp add: frame_time_nat)

lemma frame_time_early:
  assumes "k < 16 * fps"
  shows "frame_time fps k < 16 * ticks_per_second"
proof -
  from assms have "k * 1000000000 < 16000000000 * fps" by simp
  then have "(k * 1000000000) div fps < 16000000000"
    by (rule less_mult_imp_div_less)
  then show ?thesis
    by (simp add: frame_time_nat ticks_per_second_def)
qed

lemma frame_time_threshold:
  assumes "0 < fps"
  shows "frame_time fps (16 * fps) = 16 * ticks_per_second"
  using assms by (simp add: frame_time_def)

lemma not_over_threshold_early:
  assumes "0 \<le> d" "d < 16 * ticks_per_second"
  shows "\<not> over_threshold_whole_seconds d"
proof -
  from assms(2) have "d \<le> 15999999999" by (simp add: ticks_per_second_def)
  then have "d div 1000000000 \<le> 15999999999 div 1000000000"
    by (rule zdiv_mono1) simp
  with assms(1) show ?thesis
    by (simp add: over_threshold_whole_seconds_def duration_cast_seconds_def
          MAX_RELOCALIZING_SECONDS_def ticks_per_second_def)
qed

lemma relocalizing_frames_warmup:
  "n \<le> 16 * fps \<Longrightarrow> \<not> mTimingRelocalizingState s \<Longrightarrow>
   reset_count (run_frames s (relocalizing_frames fps n)) = reset_count s \<and>
   (if n = 0 then \<not> mTimingRelocalizingState (run_frames s (relocalizing_frames fps n))
    else mTimingRelocalizingState (run_frames s (relocalizing_frames fps n)) \<and>
         mEnteredRelocalizingState (run_frames s (relocalizing_frames fps n)) = 0)"
proof (induction n)
  case 0
  then show ?case by simp
next
  case (Suc n)
  let ?s = "run_frames s (relocalizing_frames fps n)"
  let ?f = "relocalizing_frame (frame_time fps n)"
  from Suc.prems have n: "n < 16 * fps" by simp
  with Suc have ih:
    "reset_count ?s = reset_count s"
    "if n = 0 then \<not> mTimingRelocalizingState ?s
     else mTimingRelocalizingState ?s \<and> mEnteredRelocalizingState ?s = 0"
    by simp_all
  from ih(2) have start: "run_start ?s ?f = 0"
    by (cases "n = 0") (simp_all add: run_start_def)
  have "\<not> over_threshold_whole_seconds (frame_time fps n)"
    using frame_time_early [OF n] by (simp add: not_over_threshold_early frame_time_nonneg)
  then have "reset_count (render_frame ?s ?f) = reset_count s"
    "mTimingRelocalizingState (render_frame ?s ?f)"
    "mEnteredRelocalizingState (render_frame ?s ?f) = 0"
    using start ih(1)
    by (simp_all add: render_frame_reset_count render_frame_timing render_frame_entered)
  then show ?case
    by (simp add: relocalizing_frames_Suc run_frames_append)
qed

lemma relocalizing_frames_reset:
  assumes "0 < fps" "\<not> mTimingRelocalizingState s"
  shows "reset_count (run_frames s (relocalizing_frames fps (16 * fps + 1))) = reset_count s + 1"
    and "\<not> mTimingRelocalizingState (run_frames s (relocalizing_frames fps (16 * fps + 1)))"
proof -
  let ?s = "run_frames s (relocalizing_frames fps (16 * fps))"
  let ?f = "relocalizing_frame (frame_time fps (16 * fps))"
  from assms relocalizing_frames_warmup [of "16 * fps" fps s]
  have w: "reset_count ?s = reset_count s" "mTimingRelocalizingState ?s"
    "mEnteredRelocalizingState ?s = 0"
    by simp_all
  then have start: "run_start ?s ?f = 0" by (simp add: run_start_def)
  have over: "over_threshold_whole_seconds (frame_time fps (16 * fps))"
    using assms(1) by (simp add: frame_time_threshold over_threshold_at_16)
  have eq: "run_frames s (relocalizing_frames fps (16 * fps + 1)) = render_frame ?s ?f"
    by (simp add: relocalizing_frames_Suc run_frames_append)
  show "reset_count (run_frames s (relocalizing_frames fps (16 * fps + 1))) = reset_count s + 1"
    unfolding eq using over start w(1) by (simp add: render_frame_reset_count)
  show "\<not> mTimingRelocalizingState (run_frames s (relocalizing_frames fps (16 * fps + 1)))"
    unfolding eq using over start by (simp add: render_frame_timing)
qed


lemma finishRender_calls:
  "calls (finishRender s e) =
     calls s @
     (if relocalizing s \<and>
         over_threshold_whole_seconds
          (now_checked e - (if mTimingRelocalizingState s then mEnteredRelocalizingState s
                            else now_entered e))
      then [EngineResetWorldTracking (mEngine s)] else []) @
     (case mVuforiaState s of None \<Rightarrow> [] | Some st \<Rightarrow> [StateRelease st])"
  by (simp add: finishRender_def issue_def Let_def over_threshold_whole_seconds_def
        split: option.split)

lemma relocalizing_controller_fields [simp]:
  "relocalizing relocalizing_controller"
  "\<not> mTimingRelocalizingState relocalizing_controller"
  "mEnteredRelocalizingState relocalizing_controller = 0"
  by (simp_all add: relocalizing_controller_def new_AppController_def relocalizing_def)

lemma timing_controller_fields [simp]:
  "relocalizing timing_controller"
  "mTimingRelocalizingState timing_controller"
  "mEnteredRelocalizingState timing_controller = 0"
  "mEngine timing_controller = Some 1"
  "mVuforiaState timing_controller = Some 7"
  "calls timing_controller = []"
  "reset_count timing_controller = 0"
  by (simp_all add: timing_controller_def relocalizing_controller_def new_AppController_def
        relocalizing_def reset_count_def)

text \<open>
  What the recursive predicates say, in terms of positions in the sequence of frames.
\<close>

lemma all_le_Suc_split: "(\<forall>i\<le>Suc k. P i) \<longleftrightarrow> P 0 \<and> (\<forall>i\<le>k. P (Suc i))"
proof
  assume a: "\<forall>i\<le>Suc k. P i"
  then show "P 0 \<and> (\<forall>i\<le>k. P (Suc i))" by auto
next
  assume b: "P 0 \<and> (\<forall>i\<le>k. P (Suc i))"
  show "\<forall>i\<le>Suc k. P i"
  proof (intro allI impI)
    fix i assume "i \<le> Suc k"
    with b show "P i" by (cases i) auto
  qed
qed

lemma exceeded_in_run_iff:
  "exceeded_in_run over t0 fs \<longleftrightarrow>
     (\<exists>k<length fs. (\<forall>i\<le>k. frame_relocalizing (fs ! i)) \<and>
        over (now_checked (frame_env (fs ! k)) - t0))"
proof (induction fs)
  case Nil
  show ?case by simp
next
  case (Cons f fs)
  show ?case
  proof
    assume "exceeded_in_run over t0 (f # fs)"
    then have r: "frame_relocalizing f"
      and d: "over (now_checked (frame_env f) - t0) \<or> exceeded_in_run over t0 fs"
      by simp_all
    from d show "\<exists>k<length (f # fs). (\<forall>i\<le>k. frame_relocalizing ((f # fs) ! i)) \<and>
        over (now_checked (frame_env ((f # fs) ! k)) - t0)"
    proof
      assume "over (now_checked (frame_env f) - t0)"
      with r show ?thesis by (intro exI [of _ 0]) simp
    next
      assume "exceeded_in_run over t0 fs"
      with Cons.IH obtain k where k: "k < length fs" "\<forall>i\<le>k. frame_relocalizing (fs ! i)"
        "over (now_checked (frame_env (fs ! k)) - t0)" by blast
      with r show ?thesis
        by (intro exI [of _ "Suc k"]) (simp add: all_le_Suc_split)
    qed
  next
    assume "\<exists>k<length (f # fs). (\<forall>i\<le>k. frame_relocalizing ((f # fs) ! i)) \<and>
        over (now_checked (frame_env ((f # fs) ! k)) - t0)"
    then obtain k where k: "k < length (f # fs)"
      "\<forall>i\<le>k. frame_relocalizing ((f # fs) ! i)"
      "over (now_checked (frame_env ((f # fs) ! k)) - t0)" by blast
    show "exceeded_in_run over t0 (f # fs)"
    proof (cases k)
      case 0
      with k show ?thesis by simp
    next
      case (Suc k')
      with k have "frame_relocalizing f" "k' < length fs"
        "\<forall>i\<le>k'. frame_relocalizing (fs ! i)"
        "over (now_checked (frame_env (fs ! k')) - t0)"
        by (simp_all add: all_le_Suc_split)
      with Cons.IH show ?thesis by auto
    qed
  qed
qed

text \<open>
  The same with indices: a run begins at frame \<open>j\<close> (the frame before it, if any, is not
  relocalizing), every frame from \<open>j\<close> to \<open>k\<close> is relocalizing, and at frame \<open>k\<close> the
  time since the clock reading taken at frame \<open>j\<close> is over the threshold.
\<close>

lemma sustained_iff:
  "sustained over prev fs \<longleftrightarrow>
     (\<exists>j k. j \<le> k \<and> k < length fs \<and>
        (if j = 0 then \<not> prev else \<not> frame_relocalizing (fs ! (j - 1))) \<and>
        (\<forall>i. j \<le> i \<and> i \<le> k \<longrightarrow> frame_relocalizing (fs ! i)) \<and>
        over (now_checked (frame_env (fs ! k)) - now_entered (frame_env (fs ! j))))"
proof (induction fs arbitrary: prev)
  case Nil
  show ?case by simp
next
  case (Cons f fs)
  let ?R = "\<lambda>gs p j k. j \<le> k \<and> k < length gs \<and>
        (if j = 0 then \<not> p else \<not> frame_relocalizing (gs ! (j - 1))) \<and>
        (\<forall>i. j \<le> i \<and> i \<le> k \<longrightarrow> frame_relocalizing (gs ! i)) \<and>
        over (now_checked (frame_env (gs ! k)) - now_entered (frame_env (gs ! j)))"
  have shift: "?R (f # fs) prev (Suc j) (Suc k) \<longleftrightarrow> ?R fs (frame_relocalizing f) j k" for j k
  proof -
    have "(\<forall>i. Suc j \<le> i \<and> i \<le> Suc k \<longrightarrow> frame_relocalizing ((f # fs) ! i)) \<longleftrightarrow>
          (\<forall>i. j \<le> i \<and> i \<le> k \<longrightarrow> frame_relocalizing (fs ! i))"
    proof
      assume a: "\<forall>i. Suc j \<le> i \<and> i \<le> Suc k \<longrightarrow> frame_relocalizing ((f # fs) ! i)"
      show "\<forall>i. j \<le> i \<and> i \<le> k \<longrightarrow> frame_relocalizing (fs ! i)"
      proof (intro allI impI)
        fix i assume "j \<le> i \<and> i \<le> k"
        with a [rule_format, of "Suc i"] show "frame_relocalizing (fs ! i)" by simp
      qed
    next
      assume b: "\<forall>i. j \<le> i \<and> i \<le> k \<longrightarrow> frame_relocalizing (fs ! i)"
      show "\<forall>i. Suc j \<le> i \<and> i \<le> Suc k \<longrightarrow> frame_relocalizing ((f # fs) ! i)"
      proof (intro allI impI)
        fix i assume c: "Suc j \<le> i \<and> i \<le> Suc k"
        then obtain i' where "i = Suc i'" by (cases i) auto
        with c b [rule_format, of i'] show "frame_relocalizing ((f # fs) ! i)" by simp
      qed
    qed
    then show ?thesis by (cases j) simp_all
  qed
  have zero: "(\<exists>k. ?R (f # fs) prev 0 k) \<longleftrightarrow>
      \<not> prev \<and> exceeded_in_run over (now_entered (frame_env f)) (f # fs)"
    unfolding exceeded_in_run_iff by auto
  show ?case
  proof
    assume "sustained over prev (f # fs)"
    then consider "\<not> prev \<and> exceeded_in_run over (now_entered (frame_env f)) (f # fs)"
      | "sustained over (frame_relocalizing f) fs" by auto
    then show "\<exists>j k. ?R (f # fs) prev j k"
    proof cases
      case 1
      with zero show ?thesis by blast
    next
      case 2
      with Cons.IH obtain j k where "?R fs (frame_relocalizing f) j k" by blast
      with shift [of j k] have "?R (f # fs) prev (Suc j) (Suc k)" by blast
      then show ?thesis by blast
    qed
  next
    assume "\<exists>j k. ?R (f # fs) prev j k"
    then obtain j k where jk: "?R (f # fs) prev j k" by blast
    show "sustained over prev (f # fs)"
    proof (cases j)
      case 0
      with jk zero show ?thesis by auto
    next
      case (Suc j')
      with jk obtain k' where "k = Suc k'" by (cases k) auto
      with jk Suc shift [of j' k'] have "?R fs (frame_relocalizing f) j' k'" by blast
      with Cons.IH have "sustained over (frame_relocalizing f) fs" by blast
      then show ?thesis by simp
    qed
  qed
qed

text \<open>
  Claim C1. Over a sequence of \<open>finishRender\<close> calls the reset should be invoked exactly
  when the cached status was limited+relocalizing, without interruption, for a duration
  exceeding the 15-second threshold. The code does not meet this: two
  limited+relocalizing calls 15.5 seconds apart are such a run, yet no reset is invoked.
  The elapsed time goes through \<open>duration_cast<seconds>\<close>, which leaves 15, and 15 > 15
  is false, although the comment at the comparison reads "relocalizing for longer than
  the threshold".
\<close>

theorem relocalizing_past_threshold_without_reset:
  "sustained over_threshold_exact False
     [relocalizing_frame 0, relocalizing_frame 15500000000] \<and>
   reset_count (run_frames new_AppController
     [relocalizing_frame 0, relocalizing_frame 15500000000]) = reset_count new_AppController"
  by (simp add: render_frame_reset_count render_frame_timing render_frame_entered run_start_def
        over_threshold_exact_def over_threshold_whole_seconds_def duration_cast_seconds_def
        MAX_RELOCALIZING_SECONDS_def ticks_per_second_def)

lemma over_threshold_from_16:
  assumes "16 * ticks_per_second \<le> d"
  shows "over_threshold_whole_seconds d"
proof -
  from assms have "16000000000 \<le> d" by (simp add: ticks_per_second_def)
  then have "16000000000 div 1000000000 \<le> d div 1000000000"
    by (rule zdiv_mono1) simp
  with assms show ?thesis
    by (simp add: over_threshold_whole_seconds_def duration_cast_seconds_def
          MAX_RELOCALIZING_SECONDS_def ticks_per_second_def)
qed

lemma not_over_threshold_upto_15:
  assumes "d \<le> 15 * ticks_per_second"
  shows "\<not> over_threshold_whole_seconds d"
proof (cases "0 \<le> d")
  case True
  from assms have "d \<le> 15000000000" by (simp add: ticks_per_second_def)
  then have "d div 1000000000 \<le> 15000000000 div 1000000000"
    by (rule zdiv_mono1) simp
  with True show ?thesis
    by (simp add: over_threshold_whole_seconds_def duration_cast_seconds_def
          MAX_RELOCALIZING_SECONDS_def ticks_per_second_def)
next
  case False
  then have "0 \<le> (- d) div 1000000000"
    by (simp add: pos_imp_zdiv_nonneg_iff)
  with False show ?thesis
    by (simp add: over_threshold_whole_seconds_def duration_cast_seconds_def
          MAX_RELOCALIZING_SECONDS_def ticks_per_second_def)
qed

text \<open>
  Claim C2, amended. At a \<open>finishRender\<close> call of a controller that is timing with status
  limited+relocalizing: when at least 16 seconds have passed since entry, the reset is
  invoked exactly once (followed only by the release of the snapshot) and the timing flag
  is cleared; when at most 15 seconds have passed, the threshold is not exceeded, no reset
  is invoked and the controller goes on timing. No call invokes the reset more than once,
  and every call that invokes it leaves the timing flag clear. In particular, from a
  controller that is not timing, \<open>16 * fps + 1\<close> consecutive limited+relocalizing frames
  at \<open>fps\<close> frames per second give exactly one reset.
\<close>

theorem relocalizing_timeout_resets_once:
  "(relocalizing s \<and> mTimingRelocalizingState s \<and>
    16 * ticks_per_second \<le> now_checked e - mEnteredRelocalizingState s \<longrightarrow>
      calls (finishRender s e) =
        calls s @ [EngineResetWorldTracking (mEngine s)] @
        (case mVuforiaState s of None \<Rightarrow> [] | Some st \<Rightarrow> [StateRelease st]) \<and>
      reset_count (finishRender s e) = reset_count s + 1 \<and>
      \<not> mTimingRelocalizingState (finishRender s e)) \<and>
   (relocalizing s \<and> mTimingRelocalizingState s \<and>
    now_checked e - mEnteredRelocalizingState s \<le> 15 * ticks_per_second \<longrightarrow>
      reset_count (finishRender s e) = reset_count s \<and>
      mTimingRelocalizingState (finishRender s e)) \<and>
   reset_count (finishRender s e) \<le> reset_count s + 1 \<and>
   (reset_count (finishRender s e) = reset_count s + 1 \<longrightarrow>
      \<not> mTimingRelocalizingState (finishRender s e)) \<and>
   (0 < fps \<and> \<not> mTimingRelocalizingState s \<longrightarrow>
      reset_count (run_frames s (relocalizing_frames fps (16 * fps + 1))) = reset_count s + 1)"
proof (intro conjI impI)
  assume a: "relocalizing s \<and> mTimingRelocalizingState s \<and>
    16 * ticks_per_second \<le> now_checked e - mEnteredRelocalizingState s"
  then have over: "over_threshold_whole_seconds (now_checked e - mEnteredRelocalizingState s)"
    by (simp add: over_threshold_from_16)
  from a over show "calls (finishRender s e) =
        calls s @ [EngineResetWorldTracking (mEngine s)] @
        (case mVuforiaState s of None \<Rightarrow> [] | Some st \<Rightarrow> [StateRelease st])"
    by (simp add: finishRender_calls)
  from a over show "reset_count (finishRender s e) = reset_count s + 1"
    by (simp add: finishRender_reset_count)
  from a over show "\<not> mTimingRelocalizingState (finishRender s e)"
    by (simp add: finishRender_timing)
next
  assume b: "relocalizing s \<and> mTimingRelocalizingState s \<and>
    now_checked e - mEnteredRelocalizingState s \<le> 15 * ticks_per_second"
  then have under:
    "\<not> over_threshold_whole_seconds (now_checked e - mEnteredRelocalizingState s)"
    by (simp add: not_over_threshold_upto_15)
  from b under show "reset_count (finishRender s e) = reset_count s"
    by (simp add: finishRender_reset_count)
  from b under show "mTimingRelocalizingState (finishRender s e)"
    by (simp add: finishRender_timing)
next
  show "reset_count (finishRender s e) \<le> reset_count s + 1"
    by (simp add: finishRender_reset_count)
next
  assume "reset_count (finishRender s e) = reset_count s + 1"
  then show "\<not> mTimingRelocalizingState (finishRender s e)"
    by (simp add: finishRender_reset_count finishRender_timing split: if_splits)
next
  assume "0 < fps \<and> \<not> mTimingRelocalizingState s"
  then show "reset_count (run_frames s (relocalizing_frames fps (16 * fps + 1))) = reset_count s + 1"
    using relocalizing_frames_reset(1) [of fps s] by simp
qed

theorem relocalizing_timeout_resets_once_witness:
  "relocalizing timing_controller \<and> mTimingRelocalizingState timing_controller \<and>
   16 * ticks_per_second
     \<le> now_checked (clock_env 16000000000) - mEnteredRelocalizingState timing_controller \<and>
   calls (finishRender timing_controller (clock_env 16000000000)) =
     [EngineResetWorldTracking (Some 1), StateRelease 7] \<and>
   \<not> mTimingRelocalizingState (finishRender timing_controller (clock_env 16000000000)) \<and>
   now_checked (clock_env 15000000000) - mEnteredRelocalizingState timing_controller
     \<le> 15 * ticks_per_second \<and>
   reset_count (finishRender timing_controller (clock_env 15000000000)) = 0 \<and>
   mTimingRelocalizingState (finishRender timing_controller (clock_env 15000000000)) \<and>
   (0::nat) < 30 \<and> \<not> mTimingRelocalizingState new_AppController \<and>
   reset_count (run_frames new_AppController (relocalizing_frames 30 (16 * 30 + 1))) = 1"
proof -
  have late: "16 * ticks_per_second
     \<le> now_checked (clock_env 16000000000) - mEnteredRelocalizingState timing_controller"
    and early: "now_checked (clock_env 15000000000) - mEnteredRelocalizingState timing_controller
     \<le> 15 * ticks_per_second"
    by (simp_all add: ticks_per_second_def)
  from late relocalizing_timeout_resets_once [of timing_controller "clock_env 16000000000" 30]
  have one: "calls (finishRender timing_controller (clock_env 16000000000)) =
     [EngineResetWorldTracking (Some 1), StateRelease 7]"
    "\<not> mTimingRelocalizingState (finishRender timing_controller (clock_env 16000000000))"
    by simp_all
  from early relocalizing_timeout_resets_once [of timing_controller "clock_env 15000000000" 30]
  have none: "reset_count (finishRender timing_controller (clock_env 15000000000)) = 0"
    "mTimingRelocalizingState (finishRender timing_controller (clock_env 15000000000))"
    by simp_all
  from relocalizing_timeout_resets_once [of new_AppController "clock_env 0" 30]
  have two: "reset_count (run_frames new_AppController (relocalizing_frames 30 (16 * 30 + 1))) = 1"
    by simp
  from late early one none two show ?thesis by simp
qed

text \<open>
  Claim C2 as stated fails in its scenario: at 30 frames per second, \<open>15 * 30 + 1\<close>
  consecutive limited+relocalizing frames end exactly 15 seconds after the first. The
  threshold is reached but not exceeded, so no reset is invoked and the controller is
  still timing.
\<close>

theorem fifteen_seconds_of_frames_counterexample:
  "reset_count (run_frames new_AppController (relocalizing_frames 30 (15 * 30 + 1))) = 0 \<and>
   mTimingRelocalizingState (run_frames new_AppController (relocalizing_frames 30 (15 * 30 + 1)))"
  using relocalizing_frames_warmup [of "15 * 30 + 1" 30 new_AppController] by simp


lemma startAR_entered: "mEnteredRelocalizingState (snd (startAR s e)) = mEnteredRelocalizingState s"
  by (simp add: startAR_def Let_def)

lemma stopAR_entered: "mEnteredRelocalizingState (snd (stopAR s e)) = mEnteredRelocalizingState s"
  by (simp add: stopAR_def Let_def)

lemma destroyObservers_entered:
  "mEnteredRelocalizingState (destroyObservers s e) = mEnteredRelocalizingState s"
  by (simp add: destroyObservers_def Let_def split: option.split)

lemma deinitAR_entered: "mEnteredRelocalizingState (deinitAR s e) = mEnteredRelocalizingState s"
  by (simp add: deinitAR_def Let_def destroyObservers_entered stopAR_entered)

lemma updateDevicePose_entered:
  "mEnteredRelocalizingState (updateDevicePose s e) = mEnteredRelocalizingState s"
  by (simp add: updateDevicePose_def Let_def)

lemma prepareToRender_entered:
  "mEnteredRelocalizingState (controller (prepareToRender s e)) = mEnteredRelocalizingState s"
  by (simp add: prepareToRender_def Let_def updateDevicePose_entered)

lemma initVuforiaInternal_entered:
  "mEnteredRelocalizingState (snd (initVuforiaInternal s e)) = mEnteredRelocalizingState s"
  by (simp add: initVuforiaInternal_def Let_def)

lemma createObservers_entered:
  "mEnteredRelocalizingState (snd (createObservers s e)) = mEnteredRelocalizingState s"
  by (simp add: createObservers_def Let_def)

lemma initAR_entered: "mEnteredRelocalizingState (initAR s e target) = mEnteredRelocalizingState s"
proof -
  obtain ok1 s1 where i: "initVuforiaInternal (s\<lparr>mTarget := target, mGuideViewModelTarget := None\<rparr>) e = (ok1, s1)"
    by (cases "initVuforiaInternal (s\<lparr>mTarget := target, mGuideViewModelTarget := None\<rparr>) e")
  obtain ok2 s2 where c: "createObservers s1 e = (ok2, s2)"
    by (cases "createObservers s1 e")
  from initVuforiaInternal_entered [of "s\<lparr>mTarget := target, mGuideViewModelTarget := None\<rparr>" e] i
  have e1: "mEnteredRelocalizingState s1 = mEnteredRelocalizingState s" by simp
  from createObservers_entered [of s1 e] c
  have e2: "mEnteredRelocalizingState s2 = mEnteredRelocalizingState s1" by simp
  show ?thesis
    by (simp add: initAR_def Let_def i c e1 e2 split: bool.split)
qed

lemma getModelTargetResult_entered:
  "getModelTargetResult s e = Some (r, s') \<Longrightarrow>
   mEnteredRelocalizingState s' = mEnteredRelocalizingState s"
  by (auto simp: getModelTargetResult_def split: if_splits list.splits option.splits)

text \<open>
  Claim C3. \<open>finishRender\<close> changes \<open>mEnteredRelocalizingState\<close> only when the status is
  limited+relocalizing and the controller was not timing, and then stores the clock
  reading; a call with any other status leaves \<open>mTimingRelocalizingState\<close> false. No other
  operation of the controller touches the entry time.
\<close>

theorem relocalizing_timer_entry:
  "(mEnteredRelocalizingState (finishRender s e) \<noteq> mEnteredRelocalizingState s \<longrightarrow>
      relocalizing s \<and> \<not> mTimingRelocalizingState s) \<and>
   (relocalizing s \<and> \<not> mTimingRelocalizingState s \<longrightarrow>
      mEnteredRelocalizingState (finishRender s e) = now_entered e) \<and>
   (\<not> relocalizing s \<longrightarrow> \<not> mTimingRelocalizingState (finishRender s e)) \<and>
   mEnteredRelocalizingState (snd (startAR s es)) = mEnteredRelocalizingState s \<and>
   mEnteredRelocalizingState (snd (stopAR s et)) = mEnteredRelocalizingState s \<and>
   mEnteredRelocalizingState (deinitAR s ed) = mEnteredRelocalizingState s \<and>
   mEnteredRelocalizingState (initAR s ei target) = mEnteredRelocalizingState s \<and>
   mEnteredRelocalizingState (controller (prepareToRender s ep)) = mEnteredRelocalizingState s \<and>
   (\<forall>r s'. getModelTargetResult s em = Some (r, s') \<longrightarrow>
      mEnteredRelocalizingState s' = mEnteredRelocalizingState s)"
  by (simp add: finishRender_entered finishRender_timing startAR_entered stopAR_entered
        deinitAR_entered initAR_entered prepareToRender_entered getModelTargetResult_entered)

theorem relocalizing_timer_entry_witness:
  "relocalizing relocalizing_controller \<and>
   \<not> mTimingRelocalizingState relocalizing_controller \<and>
   mEnteredRelocalizingState (finishRender relocalizing_controller (clock_env 5)) = 5 \<and>
   mEnteredRelocalizingState (finishRender relocalizing_controller (clock_env 5)) \<noteq>
     mEnteredRelocalizingState relocalizing_controller \<and>
   \<not> relocalizing new_AppController \<and>
   \<not> mTimingRelocalizingState (finishRender new_AppController (clock_env 5)) \<and>
   getModelTargetResult model_target_controller
       (model_target_env VU_OBSERVATION_POSE_STATUS_TRACKED) =
     Some (True, model_target_controller\<lparr>mGuideViewModelTarget := None\<rparr>) \<and>
   mEnteredRelocalizingState (model_target_controller\<lparr>mGuideViewModelTarget := None\<rparr>) =
     mEnteredRelocalizingState model_target_controller"
proof -
  have entered:
    "mEnteredRelocalizingState (finishRender relocalizing_controller (clock_env 5)) = 5"
    using relocalizing_timer_entry
      [where s = relocalizing_controller and e = "clock_env 5" and es = "start_env False"
         and et = "stop_env True VU_SUCCESS" and ed = "deinit_env VU_SUCCESS"
         and ei = init_env_ok and target = 0 and ep = prepare_env_ok
         and em = "model_target_env VU_OBSERVATION_POSE_STATUS_TRACKED"]
    by simp
  have idle: "\<not> mTimingRelocalizingState (finishRender new_AppController (clock_env 5))"
    using relocalizing_timer_entry
      [where s = new_AppController and e = "clock_env 5" and es = "start_env False"
         and et = "stop_env True VU_SUCCESS" and ed = "deinit_env VU_SUCCESS"
         and ei = init_env_ok and target = 0 and ep = prepare_env_ok
         and em = "model_target_env VU_OBSERVATION_POSE_STATUS_TRACKED"]
    by simp
  have result: "getModelTargetResult model_target_controller
       (model_target_env VU_OBSERVATION_POSE_STATUS_TRACKED) =
     Some (True, model_target_controller\<lparr>mGuideViewModelTarget := None\<rparr>)"
    by (simp add: getModelTargetResult_def model_target_env_def)
  have kept:
    "mEnteredRelocalizingState (model_target_controller\<lparr>mGuideViewModelTarget := None\<rparr>) =
       mEnteredRelocalizingState model_target_controller"
    using result relocalizing_timer_entry
      [where s = model_target_controller and e = "clock_env 5" and es = "start_env False"
         and et = "stop_env True VU_SUCCESS" and ed = "deinit_env VU_SUCCESS"
         and ei = init_env_ok and target = 0 and ep = prepare_env_ok
         and em = "model_target_env VU_OBSERVATION_POSE_STATUS_TRACKED"]
    by blast
  from entered idle result kept show ?thesis by simp
qed

section \<open>Starting and stopping\<close>

text \<open>
  Claim C4. \<open>startAR\<close> called without an engine instance or on a running engine returns
  false and leaves the controller as it was: no engine call is issued and \<open>mARStarted\<close>
  keeps its value. \<open>stopAR\<close> called without an engine instance or on an engine that is
  not running does the same.
\<close>

theorem wrong_state_start_stop:
  "(mEngine s = None \<or> start_isRunning es \<longrightarrow> startAR s es = (False, s)) \<and>
   (mEngine s = None \<or> \<not> stop_isRunning et \<longrightarrow> stopAR s et = (False, s))"
  by (auto simp: startAR_def stopAR_def)


theorem wrong_state_start_stop_witness:
  "mEngine new_AppController = None \<and>
   startAR new_AppController (start_env False) = (False, new_AppController) \<and>
   start_isRunning (start_env True) \<and>
   startAR running_controller (start_env True) = (False, running_controller) \<and>
   stopAR new_AppController (stop_env True VU_SUCCESS) = (False, new_AppController) \<and>
   \<not> stop_isRunning (stop_env False VU_SUCCESS) \<and>
   stopAR running_controller (stop_env False VU_SUCCESS) = (False, running_controller)"
proof -
  have a: "start_isRunning (start_env True)" "\<not> stop_isRunning (stop_env False VU_SUCCESS)"
    by (simp_all add: start_env_def stop_env_def)
  from a
    wrong_state_start_stop [of new_AppController "start_env False" "stop_env True VU_SUCCESS"]
    wrong_state_start_stop [of running_controller "start_env True" "stop_env False VU_SUCCESS"]
  show ?thesis by simp
qed

text \<open>
  Claim C9. When \<open>stopAR\<close> is called with an engine instance that is running,
  \<open>isARStarted\<close> is false afterwards whatever \<open>vuEngineStop\<close> answers: the flag is cleared
  before the engine is asked to stop, and \<open>stopAR\<close> returns the engine's answer.
\<close>

theorem stopAR_clears_started_flag:
  "mEngine s \<noteq> None \<and> stop_isRunning e \<longrightarrow>
     \<not> isARStarted (snd (stopAR s e)) \<and>
     calls (snd (stopAR s e)) = calls s @ [EngineStop (mEngine s)] \<and>
     (fst (stopAR s e) \<longleftrightarrow> engineStopResult e = VU_SUCCESS)"
  by (auto simp: stopAR_def isARStarted_def Let_def)


theorem stopAR_clears_started_flag_witness:
  "mEngine running_controller \<noteq> None \<and> stop_isRunning (stop_env True VU_FAILED) \<and>
   isARStarted running_controller \<and>
   \<not> isARStarted (snd (stopAR running_controller (stop_env True VU_FAILED))) \<and>
   \<not> fst (stopAR running_controller (stop_env True VU_FAILED))"
proof -
  have a: "mEngine running_controller \<noteq> None" "stop_isRunning (stop_env True VU_FAILED)"
    "engineStopResult (stop_env True VU_FAILED) = VU_FAILED"
    "isARStarted running_controller"
    by (simp_all add: stop_env_def isARStarted_def)
  from a stopAR_clears_started_flag [of running_controller "stop_env True VU_FAILED"]
  show ?thesis by simp
qed

section \<open>Deinitialisation\<close>

lemma stopAR_state:
  "mEngine s = Some eng \<Longrightarrow>
   snd (stopAR s e) =
     (if stop_isRunning e then issue (EngineStop (mEngine s)) (s\<lparr>mARStarted := False\<rparr>) else s)"
  by (simp add: stopAR_def Let_def)

lemma destroyObservers_calls:
  "calls (destroyObservers s e) =
     calls s @
     (case mObjectObserver s of None \<Rightarrow> [] | Some ob \<Rightarrow> [ObserverDestroy ob]) @
     (case mDevicePoseObserver s of None \<Rightarrow> [] | Some ob \<Rightarrow> [ObserverDestroy ob])"
  by (simp add: destroyObservers_def Let_def split: option.split)

lemma destroyObservers_fields [simp]:
  "mObjectObserver (destroyObservers s e) = None"
  "mDevicePoseObserver (destroyObservers s e) = None"
  "mEngine (destroyObservers s e) = mEngine s"
  "mRenderController (destroyObservers s e) = mRenderController s"
  "mPlatformController (destroyObservers s e) = mPlatformController s"
  "mARStarted (destroyObservers s e) = mARStarted s"
  by (simp_all add: destroyObservers_def Let_def split: option.split)

lemma deinitAR_no_engine: "mEngine s = None \<Longrightarrow> deinitAR s e = s"
  by (simp add: deinitAR_def)

lemma deinitAR_calls:
  "mEngine s = Some eng \<Longrightarrow>
   calls (deinitAR s e) =
     calls s @
     (if stop_isRunning (deinit_stop e) then [EngineStop (mEngine s)] else []) @
     (case mObjectObserver s of None \<Rightarrow> [] | Some ob \<Rightarrow> [ObserverDestroy ob]) @
     (case mDevicePoseObserver s of None \<Rightarrow> [] | Some ob \<Rightarrow> [ObserverDestroy ob]) @
     [EngineDestroy (mEngine s)]"
  by (simp add: deinitAR_def Let_def stopAR_state destroyObservers_calls)

lemma deinitAR_observers:
  "mEngine s = Some eng \<Longrightarrow>
   mObjectObserver (deinitAR s e) = None \<and> mDevicePoseObserver (deinitAR s e) = None"
  by (simp add: deinitAR_def Let_def)

lemma deinitAR_handles:
  "mEngine s = Some eng \<Longrightarrow>
   (if engineDestroyResult e = VU_SUCCESS
    then mEngine (deinitAR s e) = None \<and> mRenderController (deinitAR s e) = None \<and>
         mPlatformController (deinitAR s e) = None
    else mEngine (deinitAR s e) = mEngine s \<and>
         mRenderController (deinitAR s e) = mRenderController s \<and>
         mPlatformController (deinitAR s e) = mPlatformController s)"
  by (simp add: deinitAR_def Let_def stopAR_state)

text \<open>
  Claim C6, as the code has it. Without an engine instance \<open>deinitAR\<close> does nothing.
  Otherwise it stops the engine if it is running, destroys the object observer and the
  device-pose observer (those that exist) and then the engine instance, in this order,
  and nulls both observer handles. The engine, render-controller and platform-controller
  handles are nulled when \<open>vuEngineDestroy\<close> succeeds; when it fails the function
  returns early and they keep their values.
\<close>

theorem deinitAR_teardown:
  "(mEngine s = None \<longrightarrow> deinitAR s e = s) \<and>
   (mEngine s \<noteq> None \<longrightarrow>
      calls (deinitAR s e) =
        calls s @
        (if stop_isRunning (deinit_stop e) then [EngineStop (mEngine s)] else []) @
        (case mObjectObserver s of None \<Rightarrow> [] | Some ob \<Rightarrow> [ObserverDestroy ob]) @
        (case mDevicePoseObserver s of None \<Rightarrow> [] | Some ob \<Rightarrow> [ObserverDestroy ob]) @
        [EngineDestroy (mEngine s)] \<and>
      mObjectObserver (deinitAR s e) = None \<and>
      mDevicePoseObserver (deinitAR s e) = None \<and>
      (engineDestroyResult e = VU_SUCCESS \<longrightarrow>
         mEngine (deinitAR s e) = None \<and> mRenderController (deinitAR s e) = None \<and>
         mPlatformController (deinitAR s e) = None) \<and>
      (engineDestroyResult e \<noteq> VU_SUCCESS \<longrightarrow>
         mEngine (deinitAR s e) = mEngine s \<and>
         mRenderController (deinitAR s e) = mRenderController s \<and>
         mPlatformController (deinitAR s e) = mPlatformController s))"
proof (cases "mEngine s")
  case None
  then show ?thesis by (simp add: deinitAR_no_engine)
next
  case (Some eng)
  from deinitAR_handles [OF Some, of e] deinitAR_calls [OF Some, of e]
    deinitAR_observers [OF Some, of e] Some
  show ?thesis by (simp split: if_splits)
qed


theorem deinitAR_teardown_witness:
  "deinitAR new_AppController (deinit_env VU_SUCCESS) = new_AppController \<and>
   mEngine running_controller \<noteq> None \<and>
   calls (deinitAR running_controller (deinit_env VU_SUCCESS)) =
     [EngineStop (Some 1), ObserverDestroy 5, ObserverDestroy 4, EngineDestroy (Some 1)] \<and>
   mObjectObserver (deinitAR running_controller (deinit_env VU_SUCCESS)) = None \<and>
   mDevicePoseObserver (deinitAR running_controller (deinit_env VU_SUCCESS)) = None \<and>
   mEngine (deinitAR running_controller (deinit_env VU_SUCCESS)) = None \<and>
   mRenderController (deinitAR running_controller (deinit_env VU_SUCCESS)) = None \<and>
   mPlatformController (deinitAR running_controller (deinit_env VU_SUCCESS)) = None \<and>
   engineDestroyResult (deinit_env VU_FAILED) \<noteq> VU_SUCCESS \<and>
   mRenderController (deinitAR running_controller (deinit_env VU_FAILED)) = Some 2"
proof -
  have a: "engineDestroyResult (deinit_env VU_SUCCESS) = VU_SUCCESS"
    "engineDestroyResult (deinit_env VU_FAILED) \<noteq> VU_SUCCESS"
    "stop_isRunning (deinit_stop (deinit_env VU_SUCCESS))"
    by (simp_all add: deinit_env_def stop_env_def)
  from a
    deinitAR_teardown [of new_AppController "deinit_env VU_SUCCESS"]
    deinitAR_teardown [of running_controller "deinit_env VU_SUCCESS"]
    deinitAR_teardown [of running_controller "deinit_env VU_FAILED"]
  show ?thesis by simp
qed

text \<open>
  Claim C6 as stated fails: when \<open>vuEngineDestroy\<close> fails on an existing engine,
  \<open>deinitAR\<close> returns with the engine handle still set.
\<close>

theorem deinitAR_keeps_engine_counterexample:
  "mEngine running_controller \<noteq> None \<and>
   mEngine (deinitAR running_controller (deinit_env VU_FAILED)) = Some 1 \<and>
   mPlatformController (deinitAR running_controller (deinit_env VU_FAILED)) = Some 3"
  by (simp add: deinitAR_def Let_def stopAR_def destroyObservers_def deinit_env_def stop_env_def)

section \<open>Preparing a frame\<close>

lemma prepareToRender_early_failure:
  "acquireLatestStateResult e \<noteq> VU_SUCCESS \<or> \<not> hasCameraFrame e \<Longrightarrow>
   \<not> prepared (prepareToRender s e) \<and> viewport_out (prepareToRender s e) = None \<and>
   calls (controller (prepareToRender s e)) =
     calls s @
     [EngineAcquireLatestState
        (if acquireLatestStateResult e = VU_SUCCESS then Some (acquiredState e) else None)]"
  by (auto simp: prepareToRender_def Let_def)

lemma prepareToRender_early_failure_no_update:
  assumes "acquireLatestStateResult e \<noteq> VU_SUCCESS \<or> \<not> hasCameraFrame e"
  shows "RenderControllerUpdateVideoBackgroundTexture
           \<notin> set (issued_since s (controller (prepareToRender s e)))"
  using prepareToRender_early_failure [OF assms, of s] by (simp add: issued_since_def)

lemma prepareToRender_success_calls:
  "prepared (prepareToRender s e) \<Longrightarrow>
   calls (controller (prepareToRender s e)) =
     calls s @ [EngineAcquireLatestState (Some (acquiredState e)),
                RenderControllerUpdateVideoBackgroundTexture] \<and>
   viewport_out (prepareToRender s e) \<noteq> None"
  by (simp add: prepareToRender_def Let_def updateDevicePose_def split: if_splits)

lemma prepareToRender_success:
  "prepared (prepareToRender s e) \<Longrightarrow>
   controller (prepareToRender s e) =
     updateDevicePose
       (issue RenderControllerUpdateVideoBackgroundTexture
          ((issue (EngineAcquireLatestState (Some (acquiredState e))) s)
             \<lparr>mVuforiaState := Some (acquiredState e), mCurrentRenderState := renderState e\<rparr>))
       (prepare_pose e)"
  by (simp add: prepareToRender_def Let_def split: if_splits)

lemma updateDevicePose_data:
  "mLatestDevicePoseData (updateDevicePose s e) =
     (case devicePoseObservations e of
        [] \<Rightarrow> \<lparr> pose = vuIdentityMatrix44F, poseStatus = VU_OBSERVATION_POSE_STATUS_NO_POSE,
                poseStatusInfo = VU_DEVICE_POSE_OBSERVATION_STATUS_INFO_NORMAL \<rparr>
      | ob # _ \<Rightarrow>
          if getDevicePoseObservationsResult e = VU_SUCCESS \<and>
             devicePoseGetElementResult e = VU_SUCCESS \<and>
             obs_poseStatus ob \<noteq> VU_OBSERVATION_POSE_STATUS_NO_POSE
          then \<lparr> pose = obs_pose ob, poseStatus = obs_poseStatus ob,
                 poseStatusInfo = obs_statusInfo ob \<rparr>
          else \<lparr> pose = vuIdentityMatrix44F, poseStatus = VU_OBSERVATION_POSE_STATUS_NO_POSE,
                 poseStatusInfo = VU_DEVICE_POSE_OBSERVATION_STATUS_INFO_NORMAL \<rparr>)"
  by (simp add: updateDevicePose_def Let_def split: list.split)

text \<open>
  Claim C7. When the state cannot be acquired, or the acquired state has no camera frame,
  \<open>prepareToRender\<close> returns false without producing anything for the frame: the
  viewport is not written and the video background is not updated
  (\<open>vuRenderControllerUpdateVideoBackgroundTexture\<close> is not called; the acquisition is the
  only call issued). When it returns true, the viewport has been written, the video
  background has been updated, and the cached device pose is the one of the first
  device-pose observation if that observation has a pose, and the identity pose with
  status no-pose otherwise.
\<close>

theorem prepareToRender_failure_and_pose:
  "(acquireLatestStateResult e \<noteq> VU_SUCCESS \<or> \<not> hasCameraFrame e \<longrightarrow>
      \<not> prepared (prepareToRender s e) \<and> viewport_out (prepareToRender s e) = None \<and>
      calls (controller (prepareToRender s e)) =
        calls s @
        [EngineAcquireLatestState
           (if acquireLatestStateResult e = VU_SUCCESS then Some (acquiredState e) else None)] \<and>
      RenderControllerUpdateVideoBackgroundTexture
        \<notin> set (issued_since s (controller (prepareToRender s e)))) \<and>
   (prepared (prepareToRender s e) \<longrightarrow>
      viewport_out (prepareToRender s e) \<noteq> None \<and>
      calls (controller (prepareToRender s e)) =
        calls s @ [EngineAcquireLatestState (Some (acquiredState e)),
                   RenderControllerUpdateVideoBackgroundTexture] \<and>
      mLatestDevicePoseData (controller (prepareToRender s e)) =
        (case devicePoseObservations (prepare_pose e) of
           [] \<Rightarrow> \<lparr> pose = vuIdentityMatrix44F,
                   poseStatus = VU_OBSERVATION_POSE_STATUS_NO_POSE,
                   poseStatusInfo = VU_DEVICE_POSE_OBSERVATION_STATUS_INFO_NORMAL \<rparr>
         | ob # _ \<Rightarrow>
             if getDevicePoseObservationsResult (prepare_pose e) = VU_SUCCESS \<and>
                devicePoseGetElementResult (prepare_pose e) = VU_SUCCESS \<and>
                obs_poseStatus ob \<noteq> VU_OBSERVATION_POSE_STATUS_NO_POSE
             then \<lparr> pose = obs_pose ob, poseStatus = obs_poseStatus ob,
                    poseStatusInfo = obs_statusInfo ob \<rparr>
             else \<lparr> pose = vuIdentityMatrix44F,
                    poseStatus = VU_OBSERVATION_POSE_STATUS_NO_POSE,
                    poseStatusInfo = VU_DEVICE_POSE_OBSERVATION_STATUS_INFO_NORMAL \<rparr>))"
proof (intro conjI impI)
  assume a: "acquireLatestStateResult e \<noteq> VU_SUCCESS \<or> \<not> hasCameraFrame e"
  from prepareToRender_early_failure [OF a, of s]
  show "\<not> prepared (prepareToRender s e)" "viewport_out (prepareToRender s e) = None"
    "calls (controller (prepareToRender s e)) =
        calls s @
        [EngineAcquireLatestState
           (if acquireLatestStateResult e = VU_SUCCESS then Some (acquiredState e) else None)]"
    by simp_all
  from prepareToRender_early_failure_no_update [OF a, of s]
  show "RenderControllerUpdateVideoBackgroundTexture
        \<notin> set (issued_since s (controller (prepareToRender s e)))" .
next
  assume b: "prepared (prepareToRender s e)"
  from prepareToRender_success_calls [OF b]
  show "viewport_out (prepareToRender s e) \<noteq> None"
    "calls (controller (prepareToRender s e)) =
        calls s @ [EngineAcquireLatestState (Some (acquiredState e)),
                   RenderControllerUpdateVideoBackgroundTexture]"
    by simp_all
  from b show "mLatestDevicePoseData (controller (prepareToRender s e)) =
        (case devicePoseObservations (prepare_pose e) of
           [] \<Rightarrow> \<lparr> pose = vuIdentityMatrix44F,
                   poseStatus = VU_OBSERVATION_POSE_STATUS_NO_POSE,
                   poseStatusInfo = VU_DEVICE_POSE_OBSERVATION_STATUS_INFO_NORMAL \<rparr>
         | ob # _ \<Rightarrow>
             if getDevicePoseObservationsResult (prepare_pose e) = VU_SUCCESS \<and>
                devicePoseGetElementResult (prepare_pose e) = VU_SUCCESS \<and>
                obs_poseStatus ob \<noteq> VU_OBSERVATION_POSE_STATUS_NO_POSE
             then \<lparr> pose = obs_pose ob, poseStatus = obs_poseStatus ob,
                    poseStatusInfo = obs_statusInfo ob \<rparr>
             else \<lparr> pose = vuIdentityMatrix44F,
                    poseStatus = VU_OBSERVATION_POSE_STATUS_NO_POSE,
                    poseStatusInfo = VU_DEVICE_POSE_OBSERVATION_STATUS_INFO_NORMAL \<rparr>)"
    by (simp add: prepareToRender_success updateDevicePose_data)
qed

theorem prepareToRender_failure_and_pose_witness:
  "acquireLatestStateResult (prepare_env_ok\<lparr>acquireLatestStateResult := VU_FAILED\<rparr>) \<noteq> VU_SUCCESS \<and>
   \<not> prepared (prepareToRender running_controller
                  (prepare_env_ok\<lparr>acquireLatestStateResult := VU_FAILED\<rparr>)) \<and>
   viewport_out (prepareToRender running_controller
                  (prepare_env_ok\<lparr>acquireLatestStateResult := VU_FAILED\<rparr>)) = None \<and>
   calls (controller (prepareToRender running_controller
                  (prepare_env_ok\<lparr>acquireLatestStateResult := VU_FAILED\<rparr>))) =
     [EngineAcquireLatestState None] \<and>
   \<not> hasCameraFrame (prepare_env_ok\<lparr>hasCameraFrame := False\<rparr>) \<and>
   calls (controller (prepareToRender running_controller
                  (prepare_env_ok\<lparr>hasCameraFrame := False\<rparr>))) =
     [EngineAcquireLatestState (Some 7)] \<and>
   prepared (prepareToRender running_controller prepare_env_ok) \<and>
   calls (controller (prepareToRender running_controller prepare_env_ok)) =
     [EngineAcquireLatestState (Some 7), RenderControllerUpdateVideoBackgroundTexture] \<and>
   mLatestDevicePoseData (controller (prepareToRender running_controller prepare_env_ok)) =
     \<lparr> pose = obs_pose tracked_pose,
       poseStatus = VU_OBSERVATION_POSE_STATUS_TRACKED,
       poseStatusInfo = VU_DEVICE_POSE_OBSERVATION_STATUS_INFO_NORMAL \<rparr>"
proof -
  have ok: "prepared (prepareToRender running_controller prepare_env_ok)"
    by (simp add: prepareToRender_def prepare_env_ok_def Let_def)
  have env: "devicePoseObservations (prepare_pose prepare_env_ok) = [tracked_pose]"
    "getDevicePoseObservationsResult (prepare_pose prepare_env_ok) = VU_SUCCESS"
    "devicePoseGetElementResult (prepare_pose prepare_env_ok) = VU_SUCCESS"
    "obs_poseStatus tracked_pose = VU_OBSERVATION_POSE_STATUS_TRACKED"
    "obs_statusInfo tracked_pose = VU_DEVICE_POSE_OBSERVATION_STATUS_INFO_NORMAL"
    "acquiredState prepare_env_ok = 7"
    "acquireLatestStateResult prepare_env_ok = VU_SUCCESS"
    by (simp_all add: prepare_env_ok_def tracked_pose_def)
  from ok env
    prepareToRender_failure_and_pose
      [of "prepare_env_ok\<lparr>acquireLatestStateResult := VU_FAILED\<rparr>" running_controller]
    prepareToRender_failure_and_pose
      [of "prepare_env_ok\<lparr>hasCameraFrame := False\<rparr>" running_controller]
    prepareToRender_failure_and_pose [of prepare_env_ok running_controller]
  show ?thesis by simp
qed

section \<open>Snapshots\<close>

lemma finishRender_state: "mVuforiaState (finishRender s e) = None"
  by (simp add: finishRender_def Let_def)

lemma updateDevicePose_calls [simp]:
  "calls (updateDevicePose s e) = calls s"
  "mVuforiaState (updateDevicePose s e) = mVuforiaState s"
  by (simp_all add: updateDevicePose_def Let_def)

lemma prepareToRender_calls:
  "calls (controller (prepareToRender s e)) =
     calls s @
     [EngineAcquireLatestState
        (if acquireLatestStateResult e = VU_SUCCESS then Some (acquiredState e) else None)] @
     (if acquireLatestStateResult e = VU_SUCCESS \<and> hasCameraFrame e \<and>
         getRenderStateResult e = VU_SUCCESS \<and> vbMesh (renderState e) \<noteq> None
      then [RenderControllerUpdateVideoBackgroundTexture] else [])"
  by (simp add: prepareToRender_def Let_def)

lemma prepareToRender_state:
  "mVuforiaState (controller (prepareToRender s e)) =
     (if acquireLatestStateResult e = VU_SUCCESS then Some (acquiredState e)
      else mVuforiaState s)"
  by (simp add: prepareToRender_def Let_def)

lemma held_append: "foldl held_step hs (xs @ ys) = foldl held_step (foldl held_step hs xs) ys"
  by simp

lemma prepareToRender_held:
  "held (controller (prepareToRender s e)) =
     (if acquireLatestStateResult e = VU_SUCCESS then acquiredState e # held s else held s)"
  by (simp add: held_def prepareToRender_calls)

lemma finishRender_held:
  "held (finishRender s e) =
     (case mVuforiaState s of None \<Rightarrow> held s | Some st \<Rightarrow> remove1 st (held s))"
  by (simp add: held_def finishRender_calls split: option.split)

lemma render_cycle_clean:
  assumes "mVuforiaState s = None" "held s = []"
  shows "mVuforiaState (render_cycle s pf) = None \<and> held (render_cycle s pf) = []"
  using assms
  by (simp add: render_cycle_def finishRender_state finishRender_held prepareToRender_state
        prepareToRender_held)

lemma run_cycles_clean:
  "mVuforiaState s = None \<Longrightarrow> held s = [] \<Longrightarrow>
   mVuforiaState (run_cycles s pfs) = None \<and> held (run_cycles s pfs) = []"
proof (induction pfs arbitrary: s)
  case Nil
  then show ?case by simp
next
  case (Cons pf pfs)
  from render_cycle_clean [OF Cons.prems, of pf] Cons.IH [of "render_cycle s pf"]
  show ?case by simp
qed

text \<open>
  Claim C8. Each \<open>prepareToRender\<close> makes exactly one acquisition call, so it acquires at
  most one snapshot. Each \<open>finishRender\<close> releases the snapshot in the cached handle
  exactly once, and nothing when the handle is null, and leaves the handle null. Hence in
  render cycles (\<open>prepareToRender\<close> followed by \<open>finishRender\<close>) that start with no
  snapshot held, the client holds no snapshot after each \<open>finishRender\<close> and at most one
  between the two calls.
\<close>

theorem one_snapshot_per_frame:
  "length (filter is_acquire (calls (controller (prepareToRender s pe)))) =
     length (filter is_acquire (calls s)) + 1 \<and>
   filter is_release (calls (finishRender s fe)) =
     filter is_release (calls s) @
     (case mVuforiaState s of None \<Rightarrow> [] | Some st \<Rightarrow> [StateRelease st]) \<and>
   mVuforiaState (finishRender s fe) = None \<and>
   (mVuforiaState s = None \<and> held s = [] \<longrightarrow>
      held (run_cycles s pfs) = [] \<and>
      mVuforiaState (run_cycles s pfs) = None \<and>
      length (held (controller (prepareToRender (run_cycles s pfs) pe))) \<le> 1)"
proof (intro conjI impI)
  show "length (filter is_acquire (calls (controller (prepareToRender s pe)))) =
     length (filter is_acquire (calls s)) + 1"
    by (simp add: prepareToRender_calls)
  show "filter is_release (calls (finishRender s fe)) =
     filter is_release (calls s) @
     (case mVuforiaState s of None \<Rightarrow> [] | Some st \<Rightarrow> [StateRelease st])"
    by (simp add: finishRender_calls split: option.split)
  show "mVuforiaState (finishRender s fe) = None"
    by (rule finishRender_state)
next
  assume a: "mVuforiaState s = None \<and> held s = []"
  with run_cycles_clean [of s pfs]
  have c: "mVuforiaState (run_cycles s pfs) = None" "held (run_cycles s pfs) = []"
    by simp_all
  from c show "held (run_cycles s pfs) = []" by simp
  from c show "mVuforiaState (run_cycles s pfs) = None" by simp
  from c show "length (held (controller (prepareToRender (run_cycles s pfs) pe))) \<le> 1"
    by (simp add: prepareToRender_held)
qed


theorem one_snapshot_per_frame_witness:
  "mVuforiaState running_controller = None \<and> held running_controller = [] \<and>
   held (controller (prepareToRender running_controller prepare_env_ok)) = [7] \<and>
   held (run_cycles running_controller [(prepare_env_ok, clock_env 0)]) = [] \<and>
   mVuforiaState (run_cycles running_controller [(prepare_env_ok, clock_env 0)]) = None \<and>
   length (held (controller (prepareToRender
      (run_cycles running_controller [(prepare_env_ok, clock_env 0)]) prepare_env_ok))) \<le> 1"
proof -
  have a: "mVuforiaState running_controller = None" "held running_controller = []"
    by (simp_all add: held_def)
  have b: "held (controller (prepareToRender running_controller prepare_env_ok)) = [7]"
    by (simp add: prepareToRender_held a prepare_env_ok_def)
  from a b
    one_snapshot_per_frame
      [of running_controller prepare_env_ok "clock_env 0" "[(prepare_env_ok, clock_env 0)]"]
  show ?thesis by simp
qed

section \<open>The guide view\<close>

lemma select_guide_view_found:
  "select_guide_view gvs (Some name) = Some (Some gv) \<Longrightarrow> (gv, name) \<in> set gvs"
  by (induction gvs) (auto split: if_splits)

lemma select_guide_view_null: "select_guide_view gvs None \<noteq> Some (Some gv)"
  by (cases gvs) auto

lemma select_guide_view_matches:
  "select_guide_view gvs active = Some (Some gv) \<Longrightarrow>
   \<exists>name. active = Some name \<and> (gv, name) \<in> set gvs"
  by (cases active) (auto simp: select_guide_view_null dest: select_guide_view_found)

lemma getModelTargetResult_true:
  "getModelTargetResult s e = Some (True, s') \<Longrightarrow> mGuideViewModelTarget s' = None"
  by (auto simp: getModelTargetResult_def split: if_splits list.splits option.splits)

lemma getModelTargetResult_selects:
  assumes "getModelTargetResult s e = Some (r, s')"
    and "mGuideViewModelTarget s' = Some gv" and "mGuideViewModelTarget s \<noteq> Some gv"
  shows "case modelTargetObservations e of
           [] \<Rightarrow> False
         | ob # _ \<Rightarrow>
             mt_poseStatus ob = VU_OBSERVATION_POSE_STATUS_NO_POSE \<and>
             (case activeGuideViewName ob of
                None \<Rightarrow> False
              | Some name \<Rightarrow> (gv, name) \<in> set (guideViews e))"
  using assms
  by (auto simp: getModelTargetResult_def
        dest!: select_guide_view_matches split: if_splits list.splits option.splits)

text \<open>
  Claim C10. When \<open>getModelTargetResult\<close> returns true it has cleared the guide-view
  pointer, so \<open>getModelTargetGuideView\<close> called next returns false. The pointer is set to
  a guide view only when the first model-target observation has pose status no-pose, and
  then to a guide view whose name is the active guide view name.
\<close>

theorem model_target_result_clears_guide_view:
  "(getModelTargetResult s e = Some (True, s') \<longrightarrow>
      mGuideViewModelTarget s' = None \<and> \<not> getModelTargetGuideView s' e') \<and>
   (getModelTargetResult s e = Some (r, s'') \<and>
    mGuideViewModelTarget s'' = Some gv \<and> mGuideViewModelTarget s \<noteq> Some gv \<longrightarrow>
      (case modelTargetObservations e of
         [] \<Rightarrow> False
       | ob # _ \<Rightarrow>
           mt_poseStatus ob = VU_OBSERVATION_POSE_STATUS_NO_POSE \<and>
           (case activeGuideViewName ob of
              None \<Rightarrow> False
            | Some name \<Rightarrow> (gv, name) \<in> set (guideViews e))))"
  using getModelTargetResult_true [of s e s'] getModelTargetResult_selects [of s e r s'' gv]
  by (auto simp: getModelTargetGuideView_def)


theorem model_target_result_clears_guide_view_witness:
  "getModelTargetResult model_target_controller
       (model_target_env VU_OBSERVATION_POSE_STATUS_TRACKED) =
     Some (True, model_target_controller\<lparr>mGuideViewModelTarget := None\<rparr>) \<and>
   getModelTargetGuideView model_target_controller guide_view_env \<and>
   \<not> getModelTargetGuideView
       (model_target_controller\<lparr>mGuideViewModelTarget := None\<rparr>) guide_view_env \<and>
   getModelTargetResult (model_target_controller\<lparr>mGuideViewModelTarget := None\<rparr>)
       (model_target_env VU_OBSERVATION_POSE_STATUS_NO_POSE) =
     Some (False, model_target_controller\<lparr>mGuideViewModelTarget := Some 9\<rparr>) \<and>
   (9, ''front'') \<in> set (guideViews (model_target_env VU_OBSERVATION_POSE_STATUS_NO_POSE))"
proof -
  have tracked: "getModelTargetResult model_target_controller
       (model_target_env VU_OBSERVATION_POSE_STATUS_TRACKED) =
     Some (True, model_target_controller\<lparr>mGuideViewModelTarget := None\<rparr>)"
    by (simp add: getModelTargetResult_def model_target_env_def)
  have before: "getModelTargetGuideView model_target_controller guide_view_env"
    by (simp add: getModelTargetGuideView_def guide_view_env_def)
  have lost: "getModelTargetResult (model_target_controller\<lparr>mGuideViewModelTarget := None\<rparr>)
       (model_target_env VU_OBSERVATION_POSE_STATUS_NO_POSE) =
     Some (False, model_target_controller\<lparr>mGuideViewModelTarget := Some 9\<rparr>)"
    by (simp add: getModelTargetResult_def model_target_env_def)
  have obs: "modelTargetObservations (model_target_env VU_OBSERVATION_POSE_STATUS_NO_POSE) =
      [\<lparr> mt_poseStatus = VU_OBSERVATION_POSE_STATUS_NO_POSE,
         activeGuideViewName = Some ''front'' \<rparr>]"
    by (simp add: model_target_env_def)
  from tracked
    model_target_result_clears_guide_view
      [of model_target_controller "model_target_env VU_OBSERVATION_POSE_STATUS_TRACKED"
          "model_target_controller\<lparr>mGuideViewModelTarget := None\<rparr>" guide_view_env]
  have after: "\<not> getModelTargetGuideView
       (model_target_controller\<lparr>mGuideViewModelTarget := None\<rparr>) guide_view_env"
    by simp
  from lost obs
    model_target_result_clears_guide_view
      [of "model_target_controller\<lparr>mGuideViewModelTarget := None\<rparr>"
          "model_target_env VU_OBSERVATION_POSE_STATUS_NO_POSE"
          "model_target_controller\<lparr>mGuideViewModelTarget := None\<rparr>" guide_view_env
          False "model_target_controller\<lparr>mGuideViewModelTarget := Some 9\<rparr>" 9]
  have named: "(9, ''front'') \<in> set (guideViews (model_target_env VU_OBSERVATION_POSE_STATUS_NO_POSE))"
    by simp
  from tracked before after lost named show ?thesis by simp
qed

section \<open>Initialisation\<close>

lemma initVuforiaInternal_calls:
  "mEngine s = None \<Longrightarrow>
   calls (snd (initVuforiaInternal s e)) =
     calls s @ [EngineConfigSetCreate, EngineConfigSetAddLicenseConfig] @
     (if addLicenseConfigResult e \<noteq> VU_SUCCESS then
        [EngineConfigSetDestroy,
         ShowErrorCallback
           ''Vuforia failed to initialize because the license key could not be added to the configuration'']
      else EngineConfigSetAddPlatformAndroidConfig #
        (if addPlatformConfigResult e \<noteq> VU_SUCCESS then
           [EngineConfigSetDestroy,
            ShowErrorCallback
              ''Vuforia failed to initialize, could not apply platform-specific configuration'']
         else EngineConfigSetAddRenderConfig #
           (if addRenderConfigResult e \<noteq> VU_SUCCESS then
              [EngineConfigSetDestroy,
               ShowErrorCallback ''Vuforia failed to initialize, could not configure rendering'']
            else [EngineCreate, EngineConfigSetDestroy] @
              (if engineCreateResult e \<noteq> VU_SUCCESS then
                 [ShowErrorCallback (initErrorToString (engineCreateError e))]
               else if createdEngine e = None then
                 [ShowErrorCallback ''Vuforia initialization failed.'']
               else [RenderControllerSetProjectionMatrixNearFar]))))"
  by (simp add: initVuforiaInternal_def Let_def)

lemma initVuforiaInternal_result:
  "mEngine s = None \<Longrightarrow>
   fst (initVuforiaInternal s e) \<longleftrightarrow>
     engine_created e \<and> setProjectionMatrixNearFarResult e = VU_SUCCESS"
  by (auto simp: initVuforiaInternal_def Let_def engine_created_def config_accepted_def)

lemma initVuforiaInternal_target:
  "mTarget (snd (initVuforiaInternal s e)) = mTarget s"
  by (simp add: initVuforiaInternal_def Let_def)

lemma createObservers_calls:
  "calls (snd (createObservers s e)) =
     calls s @ EngineCreateDevicePoseObserver #
     (if createDevicePoseObserverResult e \<noteq> VU_SUCCESS then []
      else if mTarget s = IMAGE_TARGET_ID then
        EngineCreateImageTargetObserver #
        (if createObjectObserverResult e \<noteq> VU_SUCCESS
         then [ShowErrorCallback ''Error creating image target observer''] else [])
      else
        EngineCreateModelTargetObserver #
        (if createObjectObserverResult e \<noteq> VU_SUCCESS
         then [ShowErrorCallback ''Error creating model target observer''] else []))"
  by (simp add: createObservers_def Let_def)

lemma createObservers_result:
  "fst (createObservers s e) \<longleftrightarrow>
     createDevicePoseObserverResult e = VU_SUCCESS \<and> createObjectObserverResult e = VU_SUCCESS"
  by (auto simp: createObservers_def Let_def)

lemma initAR_unfold:
  "initAR s e target =
     (let s0 = s\<lparr>mTarget := target, mGuideViewModelTarget := None\<rparr>;
          s1 = snd (initVuforiaInternal s0 e)
      in if fst (initVuforiaInternal s0 e) then
           (let s2 = snd (createObservers s1 e)
            in if fst (createObservers s1 e) then issue InitDoneCallback s2 else s2)
         else s1)"
  by (simp add: initAR_def Let_def split: prod.split bool.split)

lemma initAR_calls:
  assumes "mEngine s = None"
  shows "calls (initAR s e target) =
     calls s @ [EngineConfigSetCreate, EngineConfigSetAddLicenseConfig] @
     (if addLicenseConfigResult e \<noteq> VU_SUCCESS then
        [EngineConfigSetDestroy,
         ShowErrorCallback
           ''Vuforia failed to initialize because the license key could not be added to the configuration'']
      else EngineConfigSetAddPlatformAndroidConfig #
        (if addPlatformConfigResult e \<noteq> VU_SUCCESS then
           [EngineConfigSetDestroy,
            ShowErrorCallback
              ''Vuforia failed to initialize, could not apply platform-specific configuration'']
         else EngineConfigSetAddRenderConfig #
           (if addRenderConfigResult e \<noteq> VU_SUCCESS then
              [EngineConfigSetDestroy,
               ShowErrorCallback ''Vuforia failed to initialize, could not configure rendering'']
            else [EngineCreate, EngineConfigSetDestroy] @
              (if engineCreateResult e \<noteq> VU_SUCCESS then
                 [ShowErrorCallback (initErrorToString (engineCreateError e))]
               else if createdEngine e = None then
                 [ShowErrorCallback ''Vuforia initialization failed.'']
               else RenderControllerSetProjectionMatrixNearFar #
                 (if setProjectionMatrixNearFarResult e \<noteq> VU_SUCCESS then []
                  else EngineCreateDevicePoseObserver #
                    (if createDevicePoseObserverResult e \<noteq> VU_SUCCESS then []
                     else (if target = IMAGE_TARGET_ID then EngineCreateImageTargetObserver
                           else EngineCreateModelTargetObserver) #
                       (if createObjectObserverResult e \<noteq> VU_SUCCESS then
                          [ShowErrorCallback
                             (if target = IMAGE_TARGET_ID
                              then ''Error creating image target observer''
                              else ''Error creating model target observer'')]
                        else [InitDoneCallback])))))))"
proof -
  let ?s0 = "s\<lparr>mTarget := target, mGuideViewModelTarget := None\<rparr>"
  have e0: "mEngine ?s0 = None" using assms by simp
  have c0: "calls ?s0 = calls s" by simp
  have t1: "mTarget (snd (initVuforiaInternal ?s0 e)) = target"
    by (simp add: initVuforiaInternal_target)
  show ?thesis
    unfolding initAR_unfold Let_def
    by (simp add: initVuforiaInternal_calls [OF e0] initVuforiaInternal_result [OF e0]
          createObservers_calls createObservers_result t1
          engine_created_def config_accepted_def del: One_nat_def)
qed


lemma issued_since_append [simp]: "calls s' = calls s @ cs \<Longrightarrow> issued_since s s' = cs"
  by (simp add: issued_since_def)

lemma initErrorToString_named:
  "map initErrorToString named_creation_errors =
     [''Vuforia failed to initialize because the device is not supported.'',
      ''Vuforia cannot initialize because access to the camera was denied.'',
      ''Vuforia cannot initialize because a valid license configuration is required.'',
      ''Vuforia failed to initialize because the license key is missing.'',
      ''Vuforia failed to initialize because the license key is invalid.'',
      ''Vuforia failed to initialize because the license check encountered a permanent network error.'',
      ''Vuforia failed to initialize because the license check encountered a temporary network error.'',
      ''Vuforia failed to initialize because the request to the license server is malformed, ensure the app has valid name and version fields.'',
      ''Vuforia failed to initialize because the license key was canceled.'',
      ''Vuforia failed to initialize because the license key is for the wrong product type.'',
      ''Vuforia failed to initialize because the license check encountered an unknown error.'',
      ''Vuforia failed to initialize because the requested rendering backend is not supported on this platform or device.'',
      ''Vuforia failed to initialize because the requested videobackground viewport could not be set.'']"
  by (simp add: named_creation_errors_def initErrorToString_def
        VU_ENGINE_CREATION_ERROR_DEVICE_NOT_SUPPORTED_def
        VU_ENGINE_CREATION_ERROR_PERMISSION_ERROR_def
        VU_ENGINE_CREATION_ERROR_LICENSE_ERROR_def
        VU_ENGINE_CREATION_ERROR_LICENSE_CONFIG_MISSING_KEY_def
        VU_ENGINE_CREATION_ERROR_LICENSE_CONFIG_INVALID_KEY_def
        VU_ENGINE_CREATION_ERROR_LICENSE_CONFIG_NO_NETWORK_PERMANENT_def
        VU_ENGINE_CREATION_ERROR_LICENSE_CONFIG_NO_NETWORK_TRANSIENT_def
        VU_ENGINE_CREATION_ERROR_LICENSE_CONFIG_BAD_REQUEST_def
        VU_ENGINE_CREATION_ERROR_LICENSE_CONFIG_KEY_CANCELED_def
        VU_ENGINE_CREATION_ERROR_LICENSE_CONFIG_PRODUCT_TYPE_MISMATCH_def
        VU_ENGINE_CREATION_ERROR_LICENSE_CONFIG_UNKNOWN_def
        VU_ENGINE_CREATION_ERROR_RENDER_CONFIG_UNSUPPORTED_BACKEND_def
        VU_ENGINE_CREATION_ERROR_RENDER_CONFIG_FAILED_TO_SET_VIDEO_BG_VIEWPORT_def)

lemma initErrorToString_distinct: "distinct (map initErrorToString named_creation_errors)"
  unfolding initErrorToString_named by simp

lemma initErrorToString_not_generic:
  "''Vuforia initialization failed'' \<notin> set (map initErrorToString named_creation_errors)"
  unfolding initErrorToString_named by simp

lemma initErrorToString_default:
  "c \<notin> set named_creation_errors \<Longrightarrow> initErrorToString c = ''Vuforia initialization failed''"
  by (simp add: named_creation_errors_def initErrorToString_def)


lemma initAR_failure_reported:
  assumes "mEngine s = None" "\<not> engine_created e"
  shows "length (errors_shown s (initAR s e target)) = 1 \<and> \<not> init_done s (initAR s e target)"
  using assms(2) initAR_calls [OF assms(1), of e target]
  by (auto simp: errors_shown_def init_done_def engine_created_def config_accepted_def
        List.map_filter_simps)

lemma initAR_creation_error_message:
  assumes "mEngine s = None" "config_accepted e" "engineCreateResult e \<noteq> VU_SUCCESS"
  shows "errors_shown s (initAR s e target) = [initErrorToString (engineCreateError e)]"
  using assms(2,3) initAR_calls [OF assms(1), of e target]
  by (simp add: errors_shown_def config_accepted_def List.map_filter_simps)

lemma initAR_object_observer_failure:
  assumes "mEngine s = None" "engine_created e"
    "setProjectionMatrixNearFarResult e = VU_SUCCESS"
    "createDevicePoseObserverResult e = VU_SUCCESS"
    "createObjectObserverResult e \<noteq> VU_SUCCESS"
  shows "errors_shown s (initAR s e target) =
           [if target = IMAGE_TARGET_ID then ''Error creating image target observer''
            else ''Error creating model target observer''] \<and>
         \<not> init_done s (initAR s e target)"
  using assms(2-) initAR_calls [OF assms(1), of e target]
  by (simp add: errors_shown_def init_done_def engine_created_def config_accepted_def
        List.map_filter_simps del: not_None_eq)

lemma initAR_success:
  assumes "mEngine s = None" "engine_created e"
    "setProjectionMatrixNearFarResult e = VU_SUCCESS"
    "createDevicePoseObserverResult e = VU_SUCCESS"
    "createObjectObserverResult e = VU_SUCCESS"
  shows "errors_shown s (initAR s e target) = [] \<and> init_done s (initAR s e target) \<and>
         last (calls (initAR s e target)) = InitDoneCallback"
  using assms(2-) initAR_calls [OF assms(1), of e target]
  by (simp add: errors_shown_def init_done_def engine_created_def config_accepted_def
        List.map_filter_simps del: not_None_eq)

text \<open>
  One failure of \<open>initAR\<close> is silent: when the device-pose observer cannot be created,
  \<open>createObservers\<close> returns false without invoking either callback.
\<close>

lemma initAR_device_pose_observer_failure:
  assumes "mEngine s = None" "engine_created e"
    "setProjectionMatrixNearFarResult e = VU_SUCCESS"
    "createDevicePoseObserverResult e \<noteq> VU_SUCCESS"
  shows "errors_shown s (initAR s e target) = [] \<and> \<not> init_done s (initAR s e target)"
  using assms(2-) initAR_calls [OF assms(1), of e target]
  by (simp add: errors_shown_def init_done_def engine_created_def config_accepted_def
        List.map_filter_simps del: not_None_eq)

text \<open>
  Claim C5, as the code has it. Let \<open>initAR\<close> be called on a controller without an engine
  instance. If adding the license, platform or render configuration fails, or the engine
  cannot be created, \<open>showErrorCallback\<close> is invoked exactly once and \<open>initDoneCallback\<close>
  is not; a failed engine creation reports the message of its error code. If the
  image-target or model-target observer cannot be created, \<open>showErrorCallback\<close> is
  invoked with that observer's message. When every step succeeds, no error is shown and
  \<open>initDoneCallback\<close> is the last call. The thirteen error codes that
  \<open>initErrorToString\<close> names have pairwise distinct messages, none of them the generic
  one; every other code, \<open>VU_ENGINE_CREATION_ERROR_INITIALIZATION\<close> among them, gets the
  generic message.
\<close>

theorem initAR_reports_failures:
  assumes "mEngine s = None"
  shows
  "(\<not> engine_created e \<longrightarrow>
      length (errors_shown s (initAR s e target)) = 1 \<and> \<not> init_done s (initAR s e target)) \<and>
   (config_accepted e \<and> engineCreateResult e \<noteq> VU_SUCCESS \<longrightarrow>
      errors_shown s (initAR s e target) = [initErrorToString (engineCreateError e)]) \<and>
   (engine_created e \<and> setProjectionMatrixNearFarResult e = VU_SUCCESS \<and>
    createDevicePoseObserverResult e = VU_SUCCESS \<and>
    createObjectObserverResult e \<noteq> VU_SUCCESS \<longrightarrow>
      errors_shown s (initAR s e target) =
        [if target = IMAGE_TARGET_ID then ''Error creating image target observer''
         else ''Error creating model target observer''] \<and>
      \<not> init_done s (initAR s e target)) \<and>
   (engine_created e \<and> setProjectionMatrixNearFarResult e = VU_SUCCESS \<and>
    createDevicePoseObserverResult e = VU_SUCCESS \<and>
    createObjectObserverResult e = VU_SUCCESS \<longrightarrow>
      errors_shown s (initAR s e target) = [] \<and> init_done s (initAR s e target) \<and>
      last (calls (initAR s e target)) = InitDoneCallback) \<and>
   distinct named_creation_errors \<and>
   distinct (map initErrorToString named_creation_errors) \<and>
   ''Vuforia initialization failed'' \<notin> set (map initErrorToString named_creation_errors) \<and>
   (c \<notin> set named_creation_errors \<longrightarrow> initErrorToString c = ''Vuforia initialization failed'')"
proof (intro conjI impI)
  show "distinct named_creation_errors"
    by (simp add: named_creation_errors_def
        VU_ENGINE_CREATION_ERROR_DEVICE_NOT_SUPPORTED_def
        VU_ENGINE_CREATION_ERROR_PERMISSION_ERROR_def
        VU_ENGINE_CREATION_ERROR_LICENSE_ERROR_def
        VU_ENGINE_CREATION_ERROR_LICENSE_CONFIG_MISSING_KEY_def
        VU_ENGINE_CREATION_ERROR_LICENSE_CONFIG_INVALID_KEY_def
        VU_ENGINE_CREATION_ERROR_LICENSE_CONFIG_NO_NETWORK_PERMANENT_def
        VU_ENGINE_CREATION_ERROR_LICENSE_CONFIG_NO_NETWORK_TRANSIENT_def
        VU_ENGINE_CREATION_ERROR_LICENSE_CONFIG_BAD_REQUEST_def
        VU_ENGINE_CREATION_ERROR_LICENSE_CONFIG_KEY_CANCELED_def
        VU_ENGINE_CREATION_ERROR_LICENSE_CONFIG_PRODUCT_TYPE_MISMATCH_def
        VU_ENGINE_CREATION_ERROR_LICENSE_CONFIG_UNKNOWN_def
        VU_ENGINE_CREATION_ERROR_RENDER_CONFIG_UNSUPPORTED_BACKEND_def
        VU_ENGINE_CREATION_ERROR_RENDER_CONFIG_FAILED_TO_SET_VIDEO_BG_VIEWPORT_def)
qed (use assms in \<open>simp_all add: initAR_failure_reported initAR_creation_error_message
       initAR_object_observer_failure initAR_success initErrorToString_distinct
       initErrorToString_default del: set_map\<close>,
     use initErrorToString_not_generic in simp)

theorem initAR_reports_failures_witness:
  "mEngine new_AppController = None \<and>
   \<not> engine_created (init_env_ok\<lparr>engineCreateResult := VU_FAILED,
        engineCreateError := VU_ENGINE_CREATION_ERROR_PERMISSION_ERROR\<rparr>) \<and>
   errors_shown new_AppController
     (initAR new_AppController
        (init_env_ok\<lparr>engineCreateResult := VU_FAILED,
           engineCreateError := VU_ENGINE_CREATION_ERROR_PERMISSION_ERROR\<rparr>) IMAGE_TARGET_ID) =
     [''Vuforia cannot initialize because access to the camera was denied.''] \<and>
   \<not> init_done new_AppController
     (initAR new_AppController
        (init_env_ok\<lparr>engineCreateResult := VU_FAILED,
           engineCreateError := VU_ENGINE_CREATION_ERROR_PERMISSION_ERROR\<rparr>) IMAGE_TARGET_ID) \<and>
   errors_shown new_AppController
     (initAR new_AppController (init_env_ok\<lparr>createObjectObserverResult := VU_FAILED\<rparr>)
        MODEL_TARGET_ID) =
     [''Error creating model target observer''] \<and>
   engine_created init_env_ok \<and>
   init_done new_AppController (initAR new_AppController init_env_ok IMAGE_TARGET_ID) \<and>
   VU_ENGINE_CREATION_ERROR_INITIALIZATION \<notin> set named_creation_errors \<and>
   initErrorToString VU_ENGINE_CREATION_ERROR_INITIALIZATION = ''Vuforia initialization failed''"
proof -
  let ?denied = "init_env_ok\<lparr>engineCreateResult := VU_FAILED,
        engineCreateError := VU_ENGINE_CREATION_ERROR_PERMISSION_ERROR\<rparr>"
  let ?noobs = "init_env_ok\<lparr>createObjectObserverResult := VU_FAILED\<rparr>"
  have none: "mEngine new_AppController = None" by simp
  have ok: "engine_created init_env_ok" "config_accepted init_env_ok"
    "setProjectionMatrixNearFarResult init_env_ok = VU_SUCCESS"
    "createDevicePoseObserverResult init_env_ok = VU_SUCCESS"
    "createObjectObserverResult init_env_ok = VU_SUCCESS"
    by (simp_all add: engine_created_def config_accepted_def init_env_ok_def)
  have denied: "\<not> engine_created ?denied" "config_accepted ?denied"
    "engineCreateResult ?denied \<noteq> VU_SUCCESS"
    "engineCreateError ?denied = VU_ENGINE_CREATION_ERROR_PERMISSION_ERROR"
    by (simp_all add: engine_created_def config_accepted_def init_env_ok_def)
  have noobs: "engine_created ?noobs"
    "setProjectionMatrixNearFarResult ?noobs = VU_SUCCESS"
    "createDevicePoseObserverResult ?noobs = VU_SUCCESS"
    "createObjectObserverResult ?noobs \<noteq> VU_SUCCESS"
    by (simp_all add: engine_created_def config_accepted_def init_env_ok_def)
  have msg: "initErrorToString VU_ENGINE_CREATION_ERROR_PERMISSION_ERROR =
      ''Vuforia cannot initialize because access to the camera was denied.''"
    by (simp add: initErrorToString_def VU_ENGINE_CREATION_ERROR_PERMISSION_ERROR_def
          VU_ENGINE_CREATION_ERROR_DEVICE_NOT_SUPPORTED_def)
  have other: "VU_ENGINE_CREATION_ERROR_INITIALIZATION \<notin> set named_creation_errors"
    by (simp add: named_creation_errors_def
        VU_ENGINE_CREATION_ERROR_INITIALIZATION_def
        VU_ENGINE_CREATION_ERROR_DEVICE_NOT_SUPPORTED_def
        VU_ENGINE_CREATION_ERROR_PERMISSION_ERROR_def
        VU_ENGINE_CREATION_ERROR_LICENSE_ERROR_def
        VU_ENGINE_CREATION_ERROR_LICENSE_CONFIG_MISSING_KEY_def
        VU_ENGINE_CREATION_ERROR_LICENSE_CONFIG_INVALID_KEY_def
        VU_ENGINE_CREATION_ERROR_LICENSE_CONFIG_NO_NETWORK_PERMANENT_def
        VU_ENGINE_CREATION_ERROR_LICENSE_CONFIG_NO_NETWORK_TRANSIENT_def
        VU_ENGINE_CREATION_ERROR_LICENSE_CONFIG_BAD_REQUEST_def
        VU_ENGINE_CREATION_ERROR_LICENSE_CONFIG_KEY_CANCELED_def
        VU_ENGINE_CREATION_ERROR_LICENSE_CONFIG_PRODUCT_TYPE_MISMATCH_def
        VU_ENGINE_CREATION_ERROR_LICENSE_CONFIG_UNKNOWN_def
        VU_ENGINE_CREATION_ERROR_RENDER_CONFIG_UNSUPPORTED_BACKEND_def
        VU_ENGINE_CREATION_ERROR_RENDER_CONFIG_FAILED_TO_SET_VIDEO_BG_VIEWPORT_def)
  note t1 = initAR_reports_failures
    [OF none, of ?denied IMAGE_TARGET_ID VU_ENGINE_CREATION_ERROR_INITIALIZATION]
  note t2 = initAR_reports_failures
    [OF none, of ?noobs MODEL_TARGET_ID VU_ENGINE_CREATION_ERROR_INITIALIZATION]
  note t3 = initAR_reports_failures
    [OF none, of init_env_ok IMAGE_TARGET_ID VU_ENGINE_CREATION_ERROR_INITIALIZATION]
  from t1 denied msg
  have r1: "errors_shown new_AppController (initAR new_AppController ?denied IMAGE_TARGET_ID) =
      [''Vuforia cannot initialize because access to the camera was denied.'']"
    "\<not> init_done new_AppController (initAR new_AppController ?denied IMAGE_TARGET_ID)"
    by simp_all
  from t2 noobs
  have r2: "errors_shown new_AppController (initAR new_AppController ?noobs MODEL_TARGET_ID) =
      [''Error creating model target observer'']"
    by (simp add: IMAGE_TARGET_ID_def MODEL_TARGET_ID_def)
  from t3 ok
  have r3: "init_done new_AppController (initAR new_AppController init_env_ok IMAGE_TARGET_ID)"
    by simp
  from t3 other
  have r4: "initErrorToString VU_ENGINE_CREATION_ERROR_INITIALIZATION =
      ''Vuforia initialization failed''"
    by blast
  from none denied(1) r1 r2 ok(1) r3 other r4 show ?thesis by blast
qed

text \<open>
  Claim C5 as stated fails: two distinct engine-creation error codes are reported with
  the same message.
\<close>

theorem creation_error_messages_counterexample:
  "VU_ENGINE_CREATION_ERROR_INITIALIZATION \<noteq> VU_ENGINE_CREATION_ERROR_DRIVER_CONFIG_LOAD_ERROR \<and>
   initErrorToString VU_ENGINE_CREATION_ERROR_INITIALIZATION =
     initErrorToString VU_ENGINE_CREATION_ERROR_DRIVER_CONFIG_LOAD_ERROR"
  by (simp add: initErrorToString_def
        VU_ENGINE_CREATION_ERROR_INITIALIZATION_def
        VU_ENGINE_CREATION_ERROR_DRIVER_CONFIG_LOAD_ERROR_def
        VU_ENGINE_CREATION_ERROR_DEVICE_NOT_SUPPORTED_def
        VU_ENGINE_CREATION_ERROR_PERMISSION_ERROR_def
        VU_ENGINE_CREATION_ERROR_LICENSE_ERROR_def
        VU_ENGINE_CREATION_ERROR_LICENSE_CONFIG_MISSING_KEY_def
        VU_ENGINE_CREATION_ERROR_LICENSE_CONFIG_INVALID_KEY_def
        VU_ENGINE_CREATION_ERROR_LICENSE_CONFIG_NO_NETWORK_PERMANENT_def
        VU_ENGINE_CREATION_ERROR_LICENSE_CONFIG_NO_NETWORK_TRANSIENT_def
        VU_ENGINE_CREATION_ERROR_LICENSE_CONFIG_BAD_REQUEST_def
        VU_ENGINE_CREATION_ERROR_LICENSE_CONFIG_KEY_CANCELED_def
        VU_ENGINE_CREATION_ERROR_LICENSE_CONFIG_PRODUCT_TYPE_MISMATCH_def
        VU_ENGINE_CREATION_ERROR_LICENSE_CONFIG_UNKNOWN_def
        VU_ENGINE_CREATION_ERROR_RENDER_CONFIG_UNSUPPORTED_BACKEND_def
        VU_ENGINE_CREATION_ERROR_RENDER_CONFIG_FAILED_TO_SET_VIDEO_BG_VIEWPORT_def)


end
